theory Spec2Isabelle
  imports Complex_Main
begin

section \<open>Tensors\<close>

text \<open>
  A rank-3 tensor of shape \<open>(B, C, T)\<close> is a list of \<open>B\<close> batch items, each a list of
  \<open>C\<close> channels, each a list of \<open>T\<close> real values. The mask \<open>x_mask\<close> is a tensor of
  shape \<open>(B, 1, T)\<close>. A tensor of shape \<open>(B,)\<close> is a list of reals. Floating-point
  numbers are modelled by the reals. The elementwise operations below are the torch
  operations on operands of the documented shapes; on other shapes torch broadcasts or
  raises, the lists are zipped, and the theorems state the shapes they need.
\<close>

type_synonym tensor = "real list list list"
type_synonym vec = "real list"

datatype error =
  AssertionError string
  | AttributeError string
  | ValueError string
  | RuntimeError string
  | TypeError string
  | IndexError string
  | FileNotFoundError string

definition has_shape :: "tensor \<Rightarrow> nat \<Rightarrow> nat \<Rightarrow> nat \<Rightarrow> bool" where
  "has_shape x B C T =
     (length x = B \<and> list_all (\<lambda>xb. length xb = C \<and> list_all (\<lambda>r. length r = T) xb) x)"

text \<open>\<open>x.size(1)\<close>, read off the first batch item (batches are not empty).\<close>

definition size1 :: "tensor \<Rightarrow> nat" where
  "size1 x = (case x of [] \<Rightarrow> 0 | xb # _ \<Rightarrow> length xb)"

text \<open>
  \<open>xa, xb = x.split(x.size(1) // 2, dim=1)\<close>: chunks of \<open>x.size(1) // 2\<close> channels,
  unpacked into exactly two names. With an odd channel count of at least 3 there are
  three chunks and the unpacking raises; with fewer than two channels the chunk size is 0.
\<close>

definition split_half :: "tensor \<Rightarrow> error + tensor \<times> tensor" where
  "split_half x =
     (let k = size1 x div 2 in
      if k = 0 then Inl (RuntimeError ''split_size can only be 0 if dimension size is 0'')
      else if size1 x mod 2 \<noteq> 0 then Inl (ValueError ''too many values to unpack (expected 2)'')
      else Inr (map (take k) x, map (drop k) x))"

text \<open>\<open>torch.cat([a, b], 1)\<close>\<close>

definition cat1 :: "tensor \<Rightarrow> tensor \<Rightarrow> tensor" where
  "cat1 a b = map2 (@) a b"

definition ew1 :: "(real \<Rightarrow> real) \<Rightarrow> tensor \<Rightarrow> tensor" where
  "ew1 f a = map (map (map f)) a"

definition ew2 :: "(real \<Rightarrow> real \<Rightarrow> real) \<Rightarrow> tensor \<Rightarrow> tensor \<Rightarrow> tensor" where
  "ew2 f a b = map2 (map2 (map2 f)) a b"

definition tadd :: "tensor \<Rightarrow> tensor \<Rightarrow> tensor" where
  "tadd = ew2 (+)"

definition tsub :: "tensor \<Rightarrow> tensor \<Rightarrow> tensor" where
  "tsub = ew2 (-)"

definition tmul :: "tensor \<Rightarrow> tensor \<Rightarrow> tensor" where
  "tmul = ew2 (*)"

definition texp :: "tensor \<Rightarrow> tensor" where
  "texp = ew1 exp"

definition tneg :: "tensor \<Rightarrow> tensor" where
  "tneg = ew1 uminus"

definition zeros_like :: "tensor \<Rightarrow> tensor" where
  "zeros_like = ew1 (\<lambda>_. 0)"

text \<open>The single channel of one batch item of a mask of shape \<open>(B, 1, T)\<close>.\<close>

definition mask_row :: "real list list \<Rightarrow> real list" where
  "mask_row mb = (case mb of [] \<Rightarrow> [] | r # _ \<Rightarrow> r)"

text \<open>\<open>a * x_mask\<close>: the mask is broadcast over the channels.\<close>

definition mul_mask :: "tensor \<Rightarrow> tensor \<Rightarrow> tensor" where
  "mul_mask a x_mask = map2 (\<lambda>ab mb. map (\<lambda>row. map2 (*) row (mask_row mb)) ab) a x_mask"

text \<open>\<open>torch.sum(a, [1, 2])\<close>\<close>

definition sum12 :: "tensor \<Rightarrow> vec" where
  "sum12 a = map (\<lambda>ab. sum_list (map sum_list ab)) a"

text \<open>\<open>a.transpose(1, 2)\<close>\<close>

definition transpose12 :: "tensor \<Rightarrow> tensor" where
  "transpose12 a = map transpose a"

text \<open>The values of a mask are 0 or 1.\<close>

definition mask01 :: "tensor \<Rightarrow> bool" where
  "mask01 x_mask = list_all (list_all (list_all (\<lambda>v. v = 0 \<or> v = 1))) x_mask"

section \<open>Residual coupling layers (vits2/residual\_coupling.py)\<close>

text \<open>
  A flow called with \<open>inverse=False\<close> returns the pair of the output and the
  log-determinant, and with \<open>inverse=True\<close> the output alone.
\<close>

datatype flow_out = Pair_out tensor vec | Tensor_out tensor

text \<open>
  The modules a layer owns: \<open>torch.nn.Conv1d\<close>, \<open>WaveNet\<close> (wavenet.py) and
  \<open>Transformer\<close> (text\_encoder.py) are taken as functions on tensors. The encoder
  receives \<open>h\<close>, \<open>x_mask\<close> and the optional \<open>g\<close>.
\<close>

record coupling_layer =
  input_conv :: "tensor \<Rightarrow> tensor"
  encoder :: "tensor \<Rightarrow> tensor \<Rightarrow> tensor option \<Rightarrow> tensor"
  proj :: "tensor \<Rightarrow> tensor"
  use_only_mean :: bool

record transformers_layer = coupling_layer +
  pre_transformer :: "tensor \<Rightarrow> bool list list \<Rightarrow> tensor"
  use_post_transformer :: bool
  post_transformer :: "tensor \<Rightarrow> bool list list \<Rightarrow> tensor"

text \<open>
  \<open>m, logs = stats.split(stats.size(1) // 2, dim=1)\<close> when the log-scale is estimated,
  \<open>m = stats; logs = torch.zeros_like(m)\<close> otherwise.
\<close>

definition split_stats :: "bool \<Rightarrow> tensor \<Rightarrow> error + tensor \<times> tensor" where
  "split_stats only_mean stats =
     (if \<not> only_mean then split_half stats else Inr (stats, zeros_like stats))"

text \<open>The last branch of both layers' \<open>forward\<close>, on \<open>xa\<close>, \<open>xb\<close>, \<open>m\<close> and \<open>logs\<close>.\<close>

definition affine_update ::
  "tensor \<Rightarrow> tensor \<Rightarrow> tensor \<Rightarrow> tensor \<Rightarrow> tensor \<Rightarrow> bool \<Rightarrow> flow_out" where
  "affine_update xa xb m logs x_mask inverse' =
     (if \<not> inverse' then
        (let xb' = tadd m (mul_mask (tmul xb (texp logs)) x_mask);
             x = cat1 xa xb';
             logdet = sum12 logs
         in Pair_out x logdet)
      else
        (let xb' = mul_mask (tmul (tsub xb m) (texp (tneg logs))) x_mask;
             x = cat1 xa xb'
         in Tensor_out x))"

text \<open>\<open>ResidualAffineCouplingLayer.forward\<close>\<close>

definition RACL_forward ::
  "'a coupling_layer_scheme \<Rightarrow> tensor \<Rightarrow> tensor \<Rightarrow> tensor option \<Rightarrow> bool \<Rightarrow> error + flow_out" where
  "RACL_forward L x x_mask g inverse' =
     (case split_half x of
        Inl e \<Rightarrow> Inl e
      | Inr (xa, xb) \<Rightarrow>
          (let h = mul_mask (input_conv L xa) x_mask;
               h = encoder L h x_mask g;
               stats = mul_mask (proj L h) x_mask
           in case split_stats (use_only_mean L) stats of
                Inl e \<Rightarrow> Inl e
              | Inr (m, logs) \<Rightarrow> Inr (affine_update xa xb m logs x_mask inverse')))"

text \<open>\<open>torch.where(torch.squeeze(x_mask) > 0, True, False)\<close>\<close>

definition transformer_mask_of :: "tensor \<Rightarrow> bool list list" where
  "transformer_mask_of x_mask = map (\<lambda>mb. map (\<lambda>v. v > 0) (mask_row mb)) x_mask"

text \<open>
  \<open>ResidualCouplingTransformersLayer.forward\<close>. The name \<open>xa\<close> is rebound to
  \<open>xa + xa_trans\<close> before the statistics are computed, and that value is what
  \<open>torch.cat([xa, xb], 1)\<close> concatenates.
\<close>

definition RCTL_forward ::
  "'a transformers_layer_scheme \<Rightarrow> tensor \<Rightarrow> tensor \<Rightarrow> tensor option \<Rightarrow> bool \<Rightarrow> error + flow_out" where
  "RCTL_forward L x x_mask g inverse' =
     (case split_half x of
        Inl e \<Rightarrow> Inl e
      | Inr (xa, xb) \<Rightarrow>
          (let transformer_mask = transformer_mask_of x_mask;
               xa_trans = transpose12 (pre_transformer L (transpose12 xa) transformer_mask);
               xa = tadd xa xa_trans;
               h = mul_mask (input_conv L xa) x_mask;
               h = encoder L h x_mask g;
               h = (if use_post_transformer L
                    then tadd h (transpose12 (post_transformer L (transpose12 h) transformer_mask))
                    else h);
               stats = mul_mask (proj L h) x_mask
           in case split_stats (use_only_mean L) stats of
                Inl e \<Rightarrow> Inl e
              | Inr (m, logs) \<Rightarrow> Inr (affine_update xa xb m logs x_mask inverse')))"

section \<open>Flows and the residual coupling block\<close>

text \<open>
  The flows of flow.py that the two source files call. \<open>ElementwiseAffineFlow\<close> and
  \<open>ConvFlow\<close> are taken as parameters: the function computed with \<open>inverse=False\<close>
  (the output and the log-determinant) and the one computed with \<open>inverse=True\<close>,
  both of the input, \<open>x_mask\<close> and \<open>g\<close>.
\<close>

record flow_fns =
  fwd :: "tensor \<Rightarrow> tensor \<Rightarrow> tensor option \<Rightarrow> tensor \<times> vec"
  inv :: "tensor \<Rightarrow> tensor \<Rightarrow> tensor option \<Rightarrow> tensor"

datatype flow =
  ResidualAffineCouplingLayer coupling_layer
  | ResidualCouplingTransformersLayer transformers_layer
  | FlipFlow
  | ElementwiseAffineFlow flow_fns
  | ConvFlow flow_fns

text \<open>
  Modelled from the spec: \<open>FlipFlow.forward\<close> of flow.py, which is not among the source
  files. Forward and inverse are identical: reverse the channel-axis order; the
  log-determinant is 0 for every batch item.
\<close>

definition FlipFlow_forward :: "tensor \<Rightarrow> bool \<Rightarrow> flow_out" where
  "FlipFlow_forward x inverse' =
     (let x = map rev x
      in if \<not> inverse' then Pair_out x (map (\<lambda>_. 0) x) else Tensor_out x)"

text \<open>\<open>flow(x, x_mask, g=g, inverse=inverse)\<close>\<close>

fun flow_call :: "flow \<Rightarrow> tensor \<Rightarrow> tensor \<Rightarrow> tensor option \<Rightarrow> bool \<Rightarrow> error + flow_out" where
  "flow_call (ResidualAffineCouplingLayer L) x x_mask g inverse' = RACL_forward L x x_mask g inverse'"
| "flow_call (ResidualCouplingTransformersLayer L) x x_mask g inverse' = RCTL_forward L x x_mask g inverse'"
| "flow_call FlipFlow x x_mask g inverse' = Inr (FlipFlow_forward x inverse')"
| "flow_call (ElementwiseAffineFlow p) x x_mask g inverse' =
     Inr (if \<not> inverse' then (case fwd p x x_mask g of (z, logdet) \<Rightarrow> Pair_out z logdet)
          else Tensor_out (inv p x x_mask g))"
| "flow_call (ConvFlow p) x x_mask g inverse' =
     Inr (if \<not> inverse' then (case fwd p x x_mask g of (z, logdet) \<Rightarrow> Pair_out z logdet)
          else Tensor_out (inv p x x_mask g))"

text \<open>
  \<open>ResidualCouplingBlock.__init__\<close>: for each \<open>i\<close> in \<open>range(flows)\<close> a coupling layer
  (the \<open>i\<close>-th affine or transformers layer, as \<open>use_transformer_flows\<close> says) and a
  \<open>FlipFlow\<close> are appended to \<open>self.flows\<close>.
\<close>

definition ResidualCouplingBlock_init ::
  "int \<Rightarrow> bool \<Rightarrow> (nat \<Rightarrow> coupling_layer) \<Rightarrow> (nat \<Rightarrow> transformers_layer) \<Rightarrow> flow list" where
  "ResidualCouplingBlock_init flows use_transformer_flows affine_layers transformer_layers =
     concat (map (\<lambda>i. [if \<not> use_transformer_flows
                        then ResidualAffineCouplingLayer (affine_layers i)
                        else ResidualCouplingTransformersLayer (transformer_layers i),
                        FlipFlow])
                 [0..<nat flows])"

text \<open>
  The two loops of \<open>ResidualCouplingBlock.forward\<close>. \<open>x, _ = flow(...)\<close> unpacks a
  pair; \<open>x = flow(...)\<close> takes the value. An exception of a stage ends the loop. The
  loop with \<open>inverse=True\<close> is also the loop of the sampling branch of the duration
  predictor, where \<open>g\<close> is never \<open>None\<close>.
\<close>

fun block_loop_forward :: "flow list \<Rightarrow> tensor \<Rightarrow> tensor \<Rightarrow> tensor option \<Rightarrow> error + tensor" where
  "block_loop_forward [] x x_mask g = Inr x"
| "block_loop_forward (f # fs) x x_mask g =
     (case flow_call f x x_mask g False of
        Inl e \<Rightarrow> Inl e
      | Inr (Pair_out x' _) \<Rightarrow> block_loop_forward fs x' x_mask g
      | Inr (Tensor_out _) \<Rightarrow> Inl (ValueError ''cannot unpack the output of a flow''))"

fun flows_loop_inverse :: "flow list \<Rightarrow> tensor \<Rightarrow> tensor \<Rightarrow> tensor option \<Rightarrow> error + tensor" where
  "flows_loop_inverse [] x x_mask g = Inr x"
| "flows_loop_inverse (f # fs) x x_mask g =
     (case flow_call f x x_mask g True of
        Inl e \<Rightarrow> Inl e
      | Inr (Tensor_out x') \<Rightarrow> flows_loop_inverse fs x' x_mask g
      | Inr (Pair_out _ _) \<Rightarrow> Inl (TypeError ''a pair where a tensor is expected''))"

definition ResidualCouplingBlock_forward ::
  "flow list \<Rightarrow> tensor \<Rightarrow> tensor \<Rightarrow> tensor option \<Rightarrow> bool \<Rightarrow> error + tensor" where
  "ResidualCouplingBlock_forward flows x x_mask g inverse' =
     (if \<not> inverse' then block_loop_forward flows x x_mask g
      else flows_loop_inverse (rev flows) x x_mask g)"

section \<open>Stochastic duration predictor (vits2/duration\_predictor.py)\<close>

text \<open>
  The modules of a predictor. \<open>self.proj\<close> is the field \<open>sdp_proj\<close>; \<open>LogFlow\<close>
  (flow.py) is a function of the input and the mask that returns the output and the
  log-determinant; \<open>global_conv\<close> is \<open>None\<close> when the attribute does not exist.
\<close>

record sdp =
  pre :: "tensor \<Rightarrow> tensor"
  dds :: "tensor \<Rightarrow> tensor \<Rightarrow> tensor"
  sdp_proj :: "tensor \<Rightarrow> tensor"
  log_flow :: "tensor \<Rightarrow> tensor \<Rightarrow> tensor \<times> vec"
  flows :: "flow list"
  post_pre :: "tensor \<Rightarrow> tensor"
  post_dds :: "tensor \<Rightarrow> tensor \<Rightarrow> tensor"
  post_proj :: "tensor \<Rightarrow> tensor"
  post_flows :: "flow list"
  global_conv :: "(tensor \<Rightarrow> tensor) option"

text \<open>The modules that \<open>__init__\<close> creates, as functions.\<close>

record sdp_modules =
  pre_m :: "tensor \<Rightarrow> tensor"
  dds_m :: "tensor \<Rightarrow> tensor \<Rightarrow> tensor"
  proj_m :: "tensor \<Rightarrow> tensor"
  log_flow_m :: "tensor \<Rightarrow> tensor \<Rightarrow> tensor \<times> vec"
  affine_m :: flow_fns
  conv_m :: "nat \<Rightarrow> flow_fns"
  post_pre_m :: "tensor \<Rightarrow> tensor"
  post_dds_m :: "tensor \<Rightarrow> tensor \<Rightarrow> tensor"
  post_proj_m :: "tensor \<Rightarrow> tensor"
  post_affine_m :: flow_fns
  post_conv_m :: "nat \<Rightarrow> flow_fns"
  global_conv_m :: "tensor \<Rightarrow> tensor"

text \<open>
  \<open>StochasticDurationPredictor.__init__\<close>: \<open>self.flows\<close> is an
  \<open>ElementwiseAffineFlow\<close> followed, for each \<open>i\<close> in \<open>range(flows)\<close>, by a
  \<open>ConvFlow\<close> and a \<open>FlipFlow\<close>; \<open>self.post_flows\<close> likewise;
  \<open>self.global_conv\<close> exists only if \<open>global_channels > 0\<close>.
\<close>

definition flow_chain :: "flow_fns \<Rightarrow> (nat \<Rightarrow> flow_fns) \<Rightarrow> int \<Rightarrow> flow list" where
  "flow_chain a c n =
     ElementwiseAffineFlow a # concat (map (\<lambda>i. [ConvFlow (c i), FlipFlow]) [0..<nat n])"

definition StochasticDurationPredictor_init :: "int \<Rightarrow> int \<Rightarrow> sdp_modules \<Rightarrow> sdp" where
  "StochasticDurationPredictor_init nflows global_channels M =
     \<lparr>pre = pre_m M, dds = dds_m M, sdp_proj = proj_m M, log_flow = log_flow_m M,
      flows = flow_chain (affine_m M) (conv_m M) nflows,
      post_pre = post_pre_m M, post_dds = post_dds_m M, post_proj = post_proj_m M,
      post_flows = flow_chain (post_affine_m M) (post_conv_m M) nflows,
      global_conv = (if global_channels > 0 then Some (global_conv_m M) else None)\<rparr>"

text \<open>\<open>forward\<close> returns the NLL tensor of shape \<open>(B,)\<close> or the log-duration tensor.\<close>

datatype sdp_out = NLL vec | LogW tensor

text \<open>
  \<open>x + self.global_conv(g)\<close>: the projected \<open>g\<close> has one time step, which is
  broadcast over the time steps of \<open>x\<close>.
\<close>

definition add_global :: "tensor \<Rightarrow> tensor \<Rightarrow> tensor" where
  "add_global x gx =
     map2 (map2 (\<lambda>row grow. case grow of [g0] \<Rightarrow> map (\<lambda>v. v + g0) row
                                | _ \<Rightarrow> map2 (+) row grow)) x gx"

text \<open>Lines 130 to 135 of \<open>forward\<close>, before the branch on \<open>inverse\<close>.\<close>

definition sdp_features :: "sdp \<Rightarrow> tensor \<Rightarrow> tensor \<Rightarrow> tensor option \<Rightarrow> error + tensor" where
  "sdp_features P x x_mask g =
     (let x = pre P x in
      case (case g of
              None \<Rightarrow> Inr x
            | Some gv \<Rightarrow>
                (case global_conv P of
                   None \<Rightarrow> Inl (AttributeError ''StochasticDurationPredictor object has no attribute global_conv'')
                 | Some gc \<Rightarrow> Inr (add_global x (gc gv)))) of
        Inl e \<Rightarrow> Inl e
      | Inr x \<Rightarrow>
          (let x = dds P x x_mask
           in Inr (mul_mask (sdp_proj P x) x_mask)))"

text \<open>
  The accumulators \<open>logdet_tot_q = 0.0\<close> and \<open>logdet_tot = 0\<close> are numbers until a
  tensor of shape \<open>(B,)\<close> is added to them.
\<close>

datatype acc = Scalar real | Vec vec

fun acc_add :: "acc \<Rightarrow> vec \<Rightarrow> acc" where
  "acc_add (Scalar s) v = Vec (map (\<lambda>a. s + a) v)"
| "acc_add (Vec u) v = Vec (map2 (+) u v)"

fun vec_sub_acc :: "vec \<Rightarrow> acc \<Rightarrow> vec" where
  "vec_sub_acc v (Scalar s) = map (\<lambda>a. a - s) v"
| "vec_sub_acc v (Vec u) = map2 (-) v u"

text \<open>
  The loops \<open>for flow in self.post_flows\<close> and \<open>for flow in self.flows\<close> of the
  likelihood branch: each stage is called with \<open>inverse=False\<close>, its output unpacked
  and its log-determinant added to the accumulator.
\<close>

fun flows_loop_forward ::
  "flow list \<Rightarrow> tensor \<Rightarrow> acc \<Rightarrow> tensor \<Rightarrow> tensor \<Rightarrow> error + tensor \<times> acc" where
  "flows_loop_forward [] z logdet_tot x_mask g = Inr (z, logdet_tot)"
| "flows_loop_forward (f # fs) z logdet_tot x_mask g =
     (case flow_call f z x_mask (Some g) False of
        Inl e \<Rightarrow> Inl e
      | Inr (Pair_out z' logdet) \<Rightarrow> flows_loop_forward fs z' (acc_add logdet_tot logdet) x_mask g
      | Inr (Tensor_out _) \<Rightarrow> Inl (ValueError ''cannot unpack the output of a flow''))"

text \<open>
  \<open>torch.split(z_q, [1, 1], 1)\<close> and \<open>z.split(1, 1)\<close> unpacked into two names: both
  need exactly two channels.
\<close>

definition split_1_1 :: "tensor \<Rightarrow> error + tensor \<times> tensor" where
  "split_1_1 z =
     (if size1 z = 2 then Inr (map (take 1) z, map (drop 1) z)
      else Inl (RuntimeError ''split_with_sizes expects split_sizes to sum to the dimension''))"

definition split_ones :: "tensor \<Rightarrow> error + tensor \<times> tensor" where
  "split_ones z =
     (if size1 z = 2 then Inr (map (take 1) z, map (drop 1) z)
      else Inl (ValueError ''wrong number of values to unpack (expected 2)''))"

definition sigmoid :: "real \<Rightarrow> real" where
  "sigmoid v = 1 / (1 + exp (- v))"

definition logsigmoid :: "real \<Rightarrow> real" where
  "logsigmoid v = ln (sigmoid v)"

text \<open>
  The branch \<open>if not inverse\<close>, on the feature \<open>x\<close> of lines 130 to 135.
  \<open>noise\<close> is the tensor that \<open>torch.randn(w.size(0), 2, w.size(2))\<close> returns.
\<close>

definition sdp_likelihood :: "sdp \<Rightarrow> tensor \<Rightarrow> tensor \<Rightarrow> tensor option \<Rightarrow> tensor \<Rightarrow> error + sdp_out" where
  "sdp_likelihood P x x_mask w noise =
     (case w of
        None \<Rightarrow> Inl (AssertionError ''w must be provided.'')
      | Some w \<Rightarrow>
          (let h_w = post_pre P w;
               h_w = post_dds P h_w x_mask;
               h_w = mul_mask (post_proj P h_w) x_mask;
               e_q = mul_mask noise x_mask;
               z_q = e_q;
               logdet_tot_q = Scalar 0
           in case flows_loop_forward (post_flows P) z_q logdet_tot_q x_mask (tadd x h_w) of
                Inl e \<Rightarrow> Inl e
              | Inr (z_q, logdet_tot_q) \<Rightarrow>
                  (case split_1_1 z_q of
                     Inl e \<Rightarrow> Inl e
                   | Inr (z_u, z1) \<Rightarrow>
                       (let u = mul_mask (ew1 sigmoid z_u) x_mask;
                            z0 = mul_mask (tsub w u) x_mask;
                            logdet_tot_q = acc_add logdet_tot_q
                              (sum12 (mul_mask (tadd (ew1 logsigmoid z_u) (ew1 logsigmoid (tneg z_u))) x_mask));
                            logq = vec_sub_acc
                              (sum12 (mul_mask (ew1 (\<lambda>e. - 0.5 * (ln (2 * pi) + e\<^sup>2)) e_q) x_mask))
                              logdet_tot_q;
                            logdet_tot = Scalar 0
                        in case log_flow P z0 x_mask of
                             (z0, logdet) \<Rightarrow>
                               (let logdet_tot = acc_add logdet_tot logdet;
                                    z = cat1 z0 z1
                                in case flows_loop_forward (flows P) z logdet_tot x_mask x of
                                     Inl e \<Rightarrow> Inl e
                                   | Inr (z, logdet_tot) \<Rightarrow>
                                       (let nll = vec_sub_acc
                                              (sum12 (mul_mask (ew1 (\<lambda>v. 0.5 * (ln (2 * pi) + v\<^sup>2)) z) x_mask))
                                              logdet_tot
                                        in Inr (NLL (map2 (+) nll logq))))))))"

text \<open>
  \<open>flows = list(reversed(self.flows)); flows = flows[:-2] + [flows[-1]]\<close>
\<close>

definition sampling_flows :: "'a list \<Rightarrow> error + 'a list" where
  "sampling_flows fs =
     (let fl = rev fs
      in case fl of
           [] \<Rightarrow> Inl (IndexError ''list index out of range'')
         | _ \<Rightarrow> Inr (take (length fl - 2) fl @ [last fl]))"

text \<open>
  The branch \<open>else\<close>. \<open>noise\<close> is the tensor that
  \<open>torch.randn(x.size(0), 2, x.size(2))\<close> returns.
\<close>

definition sdp_sampling :: "sdp \<Rightarrow> tensor \<Rightarrow> tensor \<Rightarrow> real \<Rightarrow> tensor \<Rightarrow> error + sdp_out" where
  "sdp_sampling P x x_mask noise_scale noise =
     (case sampling_flows (flows P) of
        Inl e \<Rightarrow> Inl e
      | Inr fl \<Rightarrow>
          (let z = ew1 (\<lambda>v. v * noise_scale) noise
           in case flows_loop_inverse fl z x_mask (Some x) of
                Inl e \<Rightarrow> Inl e
              | Inr z \<Rightarrow>
                  (case split_ones z of
                     Inl e \<Rightarrow> Inl e
                   | Inr (z0, z1) \<Rightarrow> (let logw = z0 in Inr (LogW logw)))))"

text \<open>\<open>StochasticDurationPredictor.forward\<close>\<close>

definition StochasticDurationPredictor_forward ::
  "sdp \<Rightarrow> tensor \<Rightarrow> tensor \<Rightarrow> tensor option \<Rightarrow> tensor option \<Rightarrow> bool \<Rightarrow> real \<Rightarrow> tensor
   \<Rightarrow> error + sdp_out" where
  "StochasticDurationPredictor_forward P x x_mask w g inverse' noise_scale noise =
     (case sdp_features P x x_mask g of
        Inl e \<Rightarrow> Inl e
      | Inr x \<Rightarrow>
          if \<not> inverse' then sdp_likelihood P x x_mask w noise
          else sdp_sampling P x x_mask noise_scale noise)"

section \<open>Feature extraction script (local\_fbank/compute\_fbank\_ljspeech.py)\<close>

text \<open>
  The file system maps the path of a regular file to its content; the trace records the
  calls and log lines in order. The lhotse and icefall functions the script calls are
  parameters: \<open>os.cpu_count()\<close> may return \<open>None\<close>, \<open>load_manifest\<close> reads the
  file system and may raise, \<open>get_executor()\<close> yields an executor or \<open>None\<close>,
  \<open>compute_and_store_features\<close> may raise and otherwise returns the cut set and the
  file system with what it stored, \<open>to_file\<close> writes the serialised cut set.
\<close>

type_synonym path = string
type_synonym fs = "path \<Rightarrow> string option"

datatype event =
  LoadManifest path
  | LogInfo string
  | FromManifests
  | Resample nat
  | ComputeAndStoreFeatures path nat
  | ToFile path

record world =
  files :: fs
  trace :: "event list"

record FbankConfig =
  num_mel_bins :: nat
  sampling_rate :: nat
  frame_length :: real
  frame_shift :: real

record externals =
  cpu_count :: "nat option"
  load_manifest :: "fs \<Rightarrow> path \<Rightarrow> error + string"
  get_executor :: "nat option"
  from_manifests :: "string \<Rightarrow> string \<Rightarrow> string"
  resample :: "string \<Rightarrow> nat \<Rightarrow> string"
  compute_and_store_features ::
    "fs \<Rightarrow> string \<Rightarrow> FbankConfig \<Rightarrow> path \<Rightarrow> nat \<Rightarrow> nat option \<Rightarrow> error + string \<times> fs"
  serialise :: "string \<Rightarrow> string"

text \<open>\<open>Path(d) / f\<close>\<close>

definition path_join :: "path \<Rightarrow> string \<Rightarrow> path" where
  "path_join d f = d @ ''/'' @ f"

definition log_event :: "event \<Rightarrow> world \<Rightarrow> world" where
  "log_event e w = w\<lparr>trace := trace w @ [e]\<rparr>"

text \<open>\<open>compute_spectrogram_ljspeech\<close>: the result (\<open>None\<close> or the exception) and the world after.\<close>

definition compute_spectrogram_ljspeech :: "externals \<Rightarrow> world \<Rightarrow> (error + unit) \<times> world" where
  "compute_spectrogram_ljspeech E w =
     (let src_dir = ''data/manifests'';
          output_dir = ''data/fbank''
      in case cpu_count E of
           None \<Rightarrow> (Inl (TypeError ''not supported between instances of NoneType and int''), w)
         | Some n \<Rightarrow>
     (let num_jobs = min 4 n;
          num_mel_bins = 80;
          prefix = ''ljspeech'';
          suffix = ''jsonl.gz'';
          partition = ''all'';
          sampling_rate = 16000;
          frame_length = 1024 / 16000;
          frame_shift = 256 / 16000;
          recordings_path = path_join src_dir (prefix @ ''_recordings_'' @ partition @ ''.'' @ suffix);
          w = log_event (LoadManifest recordings_path) w
      in case load_manifest E (files w) recordings_path of
           Inl e \<Rightarrow> (Inl e, w)
         | Inr recordings \<Rightarrow>
     (let supervisions_path = path_join src_dir (prefix @ ''_supervisions_'' @ partition @ ''.'' @ suffix);
          w = log_event (LoadManifest supervisions_path) w
      in case load_manifest E (files w) supervisions_path of
           Inl e \<Rightarrow> (Inl e, w)
         | Inr supervisions \<Rightarrow>
     (let extractor = \<lparr>num_mel_bins = num_mel_bins, sampling_rate = sampling_rate,
                        frame_length = frame_length, frame_shift = frame_shift\<rparr>;
          ex = get_executor E;
          cuts_filename = prefix @ ''_cuts_'' @ partition @ ''.'' @ suffix
      in if files w (path_join output_dir cuts_filename) \<noteq> None then
           (Inr (), log_event (LogInfo (cuts_filename @ '' already exists - skipping.'')) w)
         else
           (let w = log_event (LogInfo (''Processing '' @ partition)) w;
                w = log_event FromManifests w;
                w = log_event (Resample sampling_rate) w;
                cut_set = resample E (from_manifests E recordings supervisions) sampling_rate;
                storage_path = output_dir @ ''/'' @ prefix @ ''_feats_'' @ partition;
                jobs = (if ex = None then num_jobs else 80);
                w = log_event (ComputeAndStoreFeatures storage_path jobs) w
            in case compute_and_store_features E (files w) cut_set extractor storage_path jobs ex of
                 Inl e \<Rightarrow> (Inl e, w)
               | Inr (cut_set, files') \<Rightarrow>
                   (let w = w\<lparr>files := files'\<rparr>;
                        w = log_event (ToFile (path_join output_dir cuts_filename)) w
                    in (Inr (), w\<lparr>files := (files w)(path_join output_dir cuts_filename
                                                   \<mapsto> serialise E cut_set)\<rparr>)))))))"

text \<open>The events of cut-set construction, feature computation and output.\<close>

fun is_processing :: "event \<Rightarrow> bool" where
  "is_processing (LoadManifest _) = False"
| "is_processing (LogInfo _) = False"
| "is_processing FromManifests = True"
| "is_processing (Resample _) = True"
| "is_processing (ComputeAndStoreFeatures _ _) = True"
| "is_processing (ToFile _) = True"

section \<open>Auxiliary predicates and concrete instances\<close>

text \<open>Modules that return their input, used to run the definitions on concrete tensors.\<close>

definition id_fns :: flow_fns where
  "id_fns = \<lparr>fwd = (\<lambda>z x_mask g. (z, map (\<lambda>_. 0) z)), inv = (\<lambda>z x_mask g. z)\<rparr>"

definition id_modules :: sdp_modules where
  "id_modules =
     \<lparr>pre_m = (\<lambda>x. x), dds_m = (\<lambda>x x_mask. x), proj_m = (\<lambda>x. x),
      log_flow_m = (\<lambda>z x_mask. (z, map (\<lambda>_. 0) z)),
      affine_m = id_fns, conv_m = (\<lambda>_. id_fns),
      post_pre_m = (\<lambda>x. x), post_dds_m = (\<lambda>x x_mask. x), post_proj_m = (\<lambda>x. x),
      post_affine_m = id_fns, post_conv_m = (\<lambda>_. id_fns),
      global_conv_m = (\<lambda>g. g)\<rparr>"

text \<open>A predictor with the default four flows and no global conditioning.\<close>

definition sdp4 :: sdp where
  "sdp4 = StochasticDurationPredictor_init 4 (- 1) id_modules"

text \<open>
  A flow keeps the shape \<open>(B, 2, T)\<close> in the inverse direction when, called with
  \<open>inverse=True\<close> on a tensor of that shape, it returns a tensor of that shape.
\<close>

definition inverse_keeps_shape :: "flow \<Rightarrow> tensor \<Rightarrow> tensor \<Rightarrow> nat \<Rightarrow> nat \<Rightarrow> bool" where
  "inverse_keeps_shape f x_mask g B T =
     (\<forall>z. has_shape z B 2 T \<longrightarrow>
        (\<exists>z'. flow_call f z x_mask (Some g) True = Inr (Tensor_out z') \<and> has_shape z' B 2 T))"

fun is_ConvFlow :: "flow \<Rightarrow> bool" where
  "is_ConvFlow (ConvFlow _) = True"
| "is_ConvFlow _ = False"

text \<open>
  A file system with both manifests and the cuts file, and externals on which every call
  succeeds: a missing manifest raises, features are stored in one file.
\<close>

definition fs0 :: fs where
  "fs0 = [''data/manifests/ljspeech_recordings_all.jsonl.gz'' \<mapsto> ''recordings'',
          ''data/manifests/ljspeech_supervisions_all.jsonl.gz'' \<mapsto> ''supervisions'',
          ''data/fbank/ljspeech_cuts_all.jsonl.gz'' \<mapsto> ''cuts'']"

definition externals0 :: externals where
  "externals0 =
     \<lparr>cpu_count = Some 8,
      load_manifest = (\<lambda>fs p. case fs p of None \<Rightarrow> Inl (FileNotFoundError p) | Some c \<Rightarrow> Inr c),
      get_executor = None,
      from_manifests = (\<lambda>r s. r @ s),
      resample = (\<lambda>c n. c),
      compute_and_store_features =
        (\<lambda>fs c cfg p n ex. Inr (c, fs(p @ ''.lca'' \<mapsto> ''features''))),
      serialise = (\<lambda>c. c)\<rparr>"

definition world0 :: world where
  "world0 = \<lparr>files = fs0, trace = []\<rparr>"

text \<open>
  The statistics that \<open>ResidualAffineCouplingLayer.forward\<close> computes from \<open>xa\<close>
  (lines 237 to 239), as one expression.
\<close>

definition RACL_stats :: "'a coupling_layer_scheme \<Rightarrow> tensor \<Rightarrow> tensor \<Rightarrow> tensor option \<Rightarrow> tensor" where
  "RACL_stats L xa x_mask g =
     mul_mask (proj L (encoder L (mul_mask (input_conv L xa) x_mask) x_mask g)) x_mask"

text \<open>
  A transformers layer whose modules return their input: the pre-transformer output
  equals \<open>xa\<close>, so that \<open>xa + xa_trans\<close> is twice \<open>xa\<close>, and the mean is that value.
\<close>

definition doubling_layer :: transformers_layer where
  "doubling_layer =
     \<lparr>input_conv = (\<lambda>h. h), encoder = (\<lambda>h x_mask g. h), proj = (\<lambda>h. h), use_only_mean = True,
      pre_transformer = (\<lambda>a transformer_mask. a), use_post_transformer = False,
      post_transformer = (\<lambda>a transformer_mask. a)\<rparr>"

text \<open>
  An affine layer that estimates mean and log-scale: its input convolution doubles the
  channels, its other modules return their input.
\<close>

definition plain_layer :: coupling_layer where
  "plain_layer =
     \<lparr>input_conv = (\<lambda>h. cat1 h h), encoder = (\<lambda>h x_mask g. h), proj = (\<lambda>h. h),
      use_only_mean = False\<rparr>"

text \<open>An affine layer that estimates only the mean, with modules that return their input.\<close>

definition mean_layer :: coupling_layer where
  "mean_layer =
     \<lparr>input_conv = (\<lambda>h. h), encoder = (\<lambda>h x_mask g. h), proj = (\<lambda>h. h), use_only_mean = True\<rparr>"

text \<open>
  The modules of an affine layer keep shapes when the statistics they derive from an
  \<open>xa\<close> of shape \<open>(B, k, T)\<close> split into a mean and a log-scale of that shape.
\<close>

definition stats_ok :: "coupling_layer \<Rightarrow> tensor \<Rightarrow> tensor option \<Rightarrow> nat \<Rightarrow> nat \<Rightarrow> nat \<Rightarrow> bool" where
  "stats_ok L x_mask g B k T =
     (\<forall>xa. has_shape xa B k T \<longrightarrow>
        (\<exists>m logs. split_stats (use_only_mean L) (RACL_stats L xa x_mask g) = Inr (m, logs)
                  \<and> has_shape m B k T \<and> has_shape logs B k T))"

text \<open>The stages of a block built with \<open>use_transformer_flows=False\<close>.\<close>

fun affine_stage :: "flow \<Rightarrow> tensor \<Rightarrow> tensor option \<Rightarrow> nat \<Rightarrow> nat \<Rightarrow> nat \<Rightarrow> bool" where
  "affine_stage (ResidualAffineCouplingLayer L) x_mask g B k T = stats_ok L x_mask g B k T"
| "affine_stage FlipFlow x_mask g B k T = True"
| "affine_stage _ x_mask g B k T = False"

text \<open>
  The block as the specification words it. A stage in forward mode yields the
  transformed tensor and drops the log-determinant; a stage in inverse mode is the
  stage called with \<open>inverse=True\<close>. Stages are composed left to right, an error
  ending the composition; the inverse of the block composes the inverses of the stages
  in reversed order.
\<close>

definition stage_forward :: "flow \<Rightarrow> tensor \<Rightarrow> tensor option \<Rightarrow> tensor \<Rightarrow> error + tensor" where
  "stage_forward f x_mask g x =
     (case flow_call f x x_mask g False of
        Inl e \<Rightarrow> Inl e
      | Inr (Pair_out y _) \<Rightarrow> Inr y
      | Inr (Tensor_out _) \<Rightarrow> Inl (ValueError ''cannot unpack the output of a flow''))"

definition stage_inverse :: "flow \<Rightarrow> tensor \<Rightarrow> tensor option \<Rightarrow> tensor \<Rightarrow> error + tensor" where
  "stage_inverse f x_mask g x =
     (case flow_call f x x_mask g True of
        Inl e \<Rightarrow> Inl e
      | Inr (Tensor_out y) \<Rightarrow> Inr y
      | Inr (Pair_out _ _) \<Rightarrow> Inl (TypeError ''a pair where a tensor is expected''))"

definition compose_stages :: "(tensor \<Rightarrow> error + tensor) list \<Rightarrow> tensor \<Rightarrow> error + tensor" where
  "compose_stages ss x =
     fold (\<lambda>s r. case r of Inl e \<Rightarrow> Inl e | Inr y \<Rightarrow> s y) ss (Inr x)"

definition spec_block_forward :: "flow list \<Rightarrow> tensor \<Rightarrow> tensor option \<Rightarrow> tensor \<Rightarrow> error + tensor" where
  "spec_block_forward fs x_mask g x = compose_stages (map (\<lambda>f. stage_forward f x_mask g) fs) x"

definition spec_block_inverse :: "flow list \<Rightarrow> tensor \<Rightarrow> tensor option \<Rightarrow> tensor \<Rightarrow> error + tensor" where
  "spec_block_inverse fs x_mask g x =
     compose_stages (map (\<lambda>f. stage_inverse f x_mask g) (rev fs)) x"

text \<open>A block of one transformers layer and its flip flow.\<close>

definition doubling_block :: "flow list" where
  "doubling_block = ResidualCouplingBlock_init 1 True (\<lambda>_. mean_layer) (\<lambda>_. doubling_layer)"

text \<open>
  The likelihood as the specification words it. \<open>run_chain\<close> pushes a latent through
  a flow chain in forward mode and collects the log-determinant of every stage.
  \<open>valid_sum\<close> sums \<open>f\<close> over the channels and the valid time steps (mask 1) of one
  batch item. \<open>nll_at\<close> is the standard-normal negative log-density of the final
  latent on valid positions minus the accumulated log-determinant of the log flow and
  of the main chain; \<open>logq_at\<close> is the log-likelihood of the auxiliary latent under the
  posterior encoder: the log-density of the noise minus the log-determinants of the
  posterior chain and of the sigmoid.
\<close>

fun run_chain :: "flow list \<Rightarrow> tensor \<Rightarrow> tensor \<Rightarrow> tensor \<Rightarrow> (tensor \<times> vec list) option" where
  "run_chain [] z x_mask g = Some (z, [])"
| "run_chain (f # fs) z x_mask g =
     (case flow_call f z x_mask (Some g) False of
        Inr (Pair_out z' logdet) \<Rightarrow>
          (case run_chain fs z' x_mask g of
             None \<Rightarrow> None
           | Some (zf, logdets) \<Rightarrow> Some (zf, logdet # logdets))
      | _ \<Rightarrow> None)"

definition valid_sum :: "(real \<Rightarrow> real) \<Rightarrow> real list list \<Rightarrow> real list \<Rightarrow> real" where
  "valid_sum f zb mrow =
     sum_list (map (\<lambda>row. sum_list (map2 (\<lambda>v mk. if mk = 1 then f v else 0) row mrow)) zb)"

definition nll_at :: "tensor \<Rightarrow> vec \<Rightarrow> vec list \<Rightarrow> tensor \<Rightarrow> nat \<Rightarrow> real" where
  "nll_at z ld0 lds x_mask b =
     valid_sum (\<lambda>v. 0.5 * (ln (2 * pi) + v\<^sup>2)) (z ! b) (mask_row (x_mask ! b))
     - (ld0 ! b + sum_list (map (\<lambda>ld. ld ! b) lds))"

definition logq_at :: "tensor \<Rightarrow> tensor \<Rightarrow> vec list \<Rightarrow> tensor \<Rightarrow> nat \<Rightarrow> real" where
  "logq_at e_q z_u lds_q x_mask b =
     valid_sum (\<lambda>e. - 0.5 * (ln (2 * pi) + e\<^sup>2)) (e_q ! b) (mask_row (x_mask ! b))
     - (sum_list (map (\<lambda>ld. ld ! b) lds_q)
        + valid_sum (\<lambda>u. logsigmoid u + logsigmoid (- u)) (z_u ! b) (mask_row (x_mask ! b)))"

text \<open>The conditioning \<open>x + h_w\<close> of the posterior flows.\<close>

definition posterior_condition :: "sdp \<Rightarrow> tensor \<Rightarrow> tensor \<Rightarrow> tensor \<Rightarrow> tensor" where
  "posterior_condition P h w x_mask =
     tadd h (mul_mask (post_proj P (post_dds P (post_pre P w) x_mask)) x_mask)"

text \<open>
  A flow keeps the shape in the forward direction when, on a tensor of shape
  \<open>(B, 2, T)\<close>, it returns a tensor of that shape and a log-determinant of shape
  \<open>(B,)\<close>; the log flow likewise on shape \<open>(B, 1, T)\<close>.
\<close>

definition forward_keeps_shape :: "flow \<Rightarrow> tensor \<Rightarrow> tensor \<Rightarrow> nat \<Rightarrow> nat \<Rightarrow> bool" where
  "forward_keeps_shape f x_mask g B T =
     (\<forall>z. has_shape z B 2 T \<longrightarrow>
        (\<exists>z' logdet. flow_call f z x_mask (Some g) False = Inr (Pair_out z' logdet)
                     \<and> has_shape z' B 2 T \<and> length logdet = B))"

definition log_flow_keeps_shape :: "(tensor \<Rightarrow> tensor \<Rightarrow> tensor \<times> vec) \<Rightarrow> tensor \<Rightarrow> nat \<Rightarrow> nat \<Rightarrow> bool" where
  "log_flow_keeps_shape lf x_mask B T =
     (\<forall>z. has_shape z B 1 T \<longrightarrow> has_shape (fst (lf z x_mask)) B 1 T \<and> length (snd (lf z x_mask)) = B)"

text \<open>The value of an accumulator for one batch item, and its shape.\<close>

fun acc_at :: "acc \<Rightarrow> nat \<Rightarrow> real" where
  "acc_at (Scalar s) b = s"
| "acc_at (Vec u) b = u ! b"

fun acc_ok :: "acc \<Rightarrow> nat \<Rightarrow> bool" where
  "acc_ok (Scalar s) B = True"
| "acc_ok (Vec u) B = (length u = B)"

text \<open>
  A file system that holds the cuts file and no manifest, and externals on which
  \<open>os.cpu_count()\<close> returns \<open>None\<close>.
\<close>

definition fs_cuts_only :: fs where
  "fs_cuts_only = [''data/fbank/ljspeech_cuts_all.jsonl.gz'' \<mapsto> ''cuts'']"

definition world_cuts_only :: world where
  "world_cuts_only = \<lparr>files = fs_cuts_only, trace = []\<rparr>"

definition externals_no_cpu_count :: externals where
  "externals_no_cpu_count = externals0\<lparr>cpu_count := None\<rparr>"

text \<open>
  Modelled from the spec: the dropout inside \<open>DilatedDepthSeparableConv\<close> of flow.py,
  which is not among the source files (section 4.5: each layer ends in dropout before
  the residual add). The dds stack of the predictor is built with \<open>dropout_rate\<close>
  (lines 60 to 65, default 0.5) and runs before the branch on \<open>inverse\<close> (line 134).
  A dropout layer of torch multiplies its input, in training mode, by a drawn keep mask
  of zeros and ones and by \<open>1 / (1 - p)\<close>, and returns its input in evaluation mode.
  \<open>dds_layers\<close> is the dds stack as a function of what its dropout layers compute,
  \<open>keep i\<close> is the mask drawn for the \<open>i\<close>-th layer, and \<open>sdp_call\<close> is the
  predictor of one call. The flows are built without a dropout rate (lines 73 to 78) and
  stay functions.
\<close>

definition Dropout :: "real \<Rightarrow> bool \<Rightarrow> tensor \<Rightarrow> tensor \<Rightarrow> tensor" where
  "Dropout p training' keep a =
     (if training' then ew2 (\<lambda>v k. v * k / (1 - p)) a keep else a)"

record sdp_module =
  modules :: sdp
  training :: bool
  dropout_rate :: real
  dds_layers :: "(nat \<Rightarrow> tensor \<Rightarrow> tensor) \<Rightarrow> tensor \<Rightarrow> tensor \<Rightarrow> tensor"

definition sdp_call :: "sdp_module \<Rightarrow> (nat \<Rightarrow> tensor) \<Rightarrow> sdp" where
  "sdp_call M keep =
     (modules M)\<lparr>dds := dds_layers M (\<lambda>i. Dropout (dropout_rate M) (training M) (keep i))\<rparr>"

text \<open>
  A predictor whose conditioned flows shift both channels by the one-channel feature,
  and whose dds stack is one residual layer around a dropout layer.
\<close>

definition shift_fns :: flow_fns where
  "shift_fns =
     \<lparr>fwd = (\<lambda>z x_mask g. case g of None \<Rightarrow> (z, map (\<lambda>_. 0) z)
                              | Some h \<Rightarrow> (tsub z (cat1 h h), map (\<lambda>_. 0) z)),
      inv = (\<lambda>z x_mask g. case g of None \<Rightarrow> z | Some h \<Rightarrow> tadd z (cat1 h h))\<rparr>"

definition dropout_module :: "bool \<Rightarrow> sdp_module" where
  "dropout_module training' =
     \<lparr>modules = StochasticDurationPredictor_init 4 (- 1) (id_modules\<lparr>conv_m := (\<lambda>_. shift_fns)\<rparr>),
      training = training',
      dropout_rate = 1 / 2,
      dds_layers = (\<lambda>dropout x x_mask. mul_mask (tadd x (dropout 0 x)) x_mask)\<rparr>"

text \<open>
  What \<open>ResidualCouplingTransformersLayer.forward\<close> rebinds \<open>xa\<close> to (line 385), and
  the statistics it computes from that value (lines 387 to 395).
\<close>

definition RCTL_refine :: "'a transformers_layer_scheme \<Rightarrow> tensor \<Rightarrow> tensor \<Rightarrow> tensor" where
  "RCTL_refine L xa x_mask =
     tadd xa (transpose12 (pre_transformer L (transpose12 xa) (transformer_mask_of x_mask)))"

definition RCTL_stats :: "'a transformers_layer_scheme \<Rightarrow> tensor \<Rightarrow> tensor \<Rightarrow> tensor option \<Rightarrow> tensor" where
  "RCTL_stats L xa' x_mask g =
     (let h = encoder L (mul_mask (input_conv L xa') x_mask) x_mask g;
          h = (if use_post_transformer L
               then tadd h (transpose12 (post_transformer L (transpose12 h) (transformer_mask_of x_mask)))
               else h)
      in mul_mask (proj L h) x_mask)"

section \<open>Properties of the tensor operations\<close>

lemmas tensor_eval = split_half_def size1_def mul_mask_def mask_row_def
  split_stats_def zeros_like_def ew1_def ew2_def affine_update_def tadd_def tmul_def tsub_def
  tneg_def texp_def cat1_def sum12_def transpose12_def transformer_mask_of_def

lemma has_shape_iff:
  "has_shape x B C T \<longleftrightarrow>
     length x = B \<and> (\<forall>b<B. length (x ! b) = C \<and> (\<forall>c<C. length (x ! b ! c) = T))"
  by (auto simp: has_shape_def list_all_length)

lemma tensor_eqI:
  assumes "has_shape x B C T" and "has_shape y B C T"
    and "\<And>b c t. b < B \<Longrightarrow> c < C \<Longrightarrow> t < T \<Longrightarrow> x ! b ! c ! t = y ! b ! c ! t"
  shows "x = y"
proof (rule nth_equalityI)
  show "length x = length y" using assms(1,2) by (simp add: has_shape_iff)
next
  fix b assume b: "b < length x"
  then have bB: "b < B" using assms(1) by (simp add: has_shape_iff)
  show "x ! b = y ! b"
  proof (rule nth_equalityI)
    show "length (x ! b) = length (y ! b)" using assms(1,2) bB by (simp add: has_shape_iff)
  next
    fix c assume "c < length (x ! b)"
    then have cC: "c < C" using assms(1) bB by (simp add: has_shape_iff)
    show "x ! b ! c = y ! b ! c"
    proof (rule nth_equalityI)
      show "length (x ! b ! c) = length (y ! b ! c)"
        using assms(1,2) bB cC by (simp add: has_shape_iff)
    next
      fix t assume "t < length (x ! b ! c)"
      then have "t < T" using assms(1) bB cC by (simp add: has_shape_iff)
      then show "x ! b ! c ! t = y ! b ! c ! t" using assms(3) bB cC by simp
    qed
  qed
qed

lemma ew2_shape:
  "has_shape a B C T \<Longrightarrow> has_shape b B C T \<Longrightarrow> has_shape (ew2 f a b) B C T"
  by (simp add: has_shape_iff ew2_def)

lemma ew2_nth:
  "has_shape a B C T \<Longrightarrow> has_shape b B C T \<Longrightarrow> i < B \<Longrightarrow> c < C \<Longrightarrow> t < T \<Longrightarrow>
   ew2 f a b ! i ! c ! t = f (a ! i ! c ! t) (b ! i ! c ! t)"
  by (simp add: has_shape_iff ew2_def)

lemma ew1_shape: "has_shape a B C T \<Longrightarrow> has_shape (ew1 f a) B C T"
  by (simp add: has_shape_iff ew1_def)

lemma ew1_nth:
  "has_shape a B C T \<Longrightarrow> i < B \<Longrightarrow> c < C \<Longrightarrow> t < T \<Longrightarrow> ew1 f a ! i ! c ! t = f (a ! i ! c ! t)"
  by (simp add: has_shape_iff ew1_def)

lemma mask_row_nth: "length mb = Suc 0 \<Longrightarrow> mask_row mb = mb ! 0"
  by (cases mb) (simp_all add: mask_row_def)

lemma mul_mask_shape:
  "has_shape a B C T \<Longrightarrow> has_shape m B (Suc 0) T \<Longrightarrow> has_shape (mul_mask a m) B C T"
  by (simp add: has_shape_iff mul_mask_def mask_row_nth)

lemma mul_mask_nth:
  "has_shape a B C T \<Longrightarrow> has_shape m B (Suc 0) T \<Longrightarrow> i < B \<Longrightarrow> c < C \<Longrightarrow> t < T \<Longrightarrow>
   mul_mask a m ! i ! c ! t = a ! i ! c ! t * m ! i ! 0 ! t"
  by (simp add: has_shape_iff mul_mask_def mask_row_nth)

lemma cat1_shape:
  "has_shape a B C T \<Longrightarrow> has_shape b B D T \<Longrightarrow> has_shape (cat1 a b) B (C + D) T"
  by (auto simp: has_shape_iff cat1_def nth_append)

lemma take_cat1: "has_shape a B C T \<Longrightarrow> length b = B \<Longrightarrow> map (take C) (cat1 a b) = a"
  by (rule nth_equalityI) (simp_all add: has_shape_iff cat1_def)

lemma drop_cat1: "has_shape a B C T \<Longrightarrow> length b = B \<Longrightarrow> map (drop C) (cat1 a b) = b"
  by (rule nth_equalityI) (simp_all add: has_shape_iff cat1_def)

lemma size1_shape: "has_shape x B C T \<Longrightarrow> 0 < B \<Longrightarrow> size1 x = C"
  by (cases x) (auto simp: has_shape_def size1_def)

lemma split_half_cat1:
  assumes "has_shape a B C T" and "has_shape b B C T" and "0 < B" and "0 < C"
  shows "split_half (cat1 a b) = Inr (a, b)"
proof -
  have "size1 (cat1 a b) = C + C"
    using cat1_shape[OF assms(1,2)] assms(3) by (rule size1_shape)
  moreover have "length b = B" using assms(2) by (simp add: has_shape_iff)
  ultimately show ?thesis
    using assms(1,4) by (simp add: split_half_def take_cat1 drop_cat1)
qed

lemma split_half_shape:
  assumes "has_shape x B (2 * k) T" and "0 < B" and "0 < k"
  shows "split_half x = Inr (map (take k) x, map (drop k) x)"
    and "has_shape (map (take k) x) B k T" and "has_shape (map (drop k) x) B k T"
    and "cat1 (map (take k) x) (map (drop k) x) = x"
proof -
  have "size1 x = 2 * k" using assms(1,2) by (rule size1_shape)
  then show "split_half x = Inr (map (take k) x, map (drop k) x)"
    using assms(3) by (simp add: split_half_def)
  show "has_shape (map (take k) x) B k T" using assms(1) by (simp add: has_shape_iff)
  show "has_shape (map (drop k) x) B k T" using assms(1) by (simp add: has_shape_iff)
  show "cat1 (map (take k) x) (map (drop k) x) = x"
    by (rule nth_equalityI) (simp_all add: cat1_def)
qed

section \<open>The stochastic duration predictor\<close>

text \<open>
  Claim C7. In likelihood mode (\<open>inverse=False\<close>) with \<open>w\<close> omitted (\<open>None\<close>),
  \<open>forward\<close> never produces a result: it ends with an exception, and whenever the
  feature computation of lines 130 to 135 succeeds that exception is the failed
  assertion \<open>w must be provided.\<close>, the invalid-input error of the specification.
\<close>

theorem likelihood_without_w_fails:
  "(\<exists>e. StochasticDurationPredictor_forward P x x_mask None g False noise_scale noise = Inl e) \<and>
   (\<forall>h. sdp_features P x x_mask g = Inr h \<longrightarrow>
      StochasticDurationPredictor_forward P x x_mask None g False noise_scale noise
        = Inl (AssertionError ''w must be provided.''))"
  by (cases "sdp_features P x x_mask g")
     (simp_all add: StochasticDurationPredictor_forward_def sdp_likelihood_def)

lemma sdp4_features:
  "sdp_features sdp4 [[[1]]] [[[1]]] None = Inr [[[1]]]"
  by (simp add: sdp4_def sdp_features_def StochasticDurationPredictor_init_def id_modules_def
      mul_mask_def mask_row_def)

theorem likelihood_without_w_fails_witness:
  "sdp_features sdp4 [[[1]]] [[[1]]] None = Inr [[[1]]] \<and>
   StochasticDurationPredictor_forward sdp4 [[[1]]] [[[1]]] None None False 1 [[[0], [0]]]
     = Inl (AssertionError ''w must be provided.'')"
  using likelihood_without_w_fails [of sdp4 "[[[1]]]" "[[[1]]]" None 1 "[[[0], [0]]]"]
    sdp4_features
  by simp

text \<open>
  Claim C9. A predictor constructed with \<open>global_channels \<le> 0\<close> has no
  \<open>global_conv\<close>, and \<open>forward\<close> with a \<open>g\<close> that is not \<open>None\<close> raises in
  likelihood and in sampling mode alike. With \<open>global_channels > 0\<close> the projected \<open>g\<close>
  is added to the feature before the branch on \<open>inverse\<close>, and both branches run on the
  same feature.
\<close>

theorem global_conditioning_before_branch:
  "(global_channels \<le> 0 \<longrightarrow>
      StochasticDurationPredictor_forward (StochasticDurationPredictor_init nflows global_channels M)
        x x_mask w (Some gv) inverse' noise_scale noise
      = Inl (AttributeError ''StochasticDurationPredictor object has no attribute global_conv'')) \<and>
   (global_channels > 0 \<longrightarrow>
      (let P = StochasticDurationPredictor_init nflows global_channels M;
           h = mul_mask (proj_m M (dds_m M (add_global (pre_m M x) (global_conv_m M gv)) x_mask)) x_mask
       in sdp_features P x x_mask (Some gv) = Inr h \<and>
          StochasticDurationPredictor_forward P x x_mask w (Some gv) False noise_scale noise
            = sdp_likelihood P h x_mask w noise \<and>
          StochasticDurationPredictor_forward P x x_mask w (Some gv) True noise_scale noise
            = sdp_sampling P h x_mask noise_scale noise))"
  by (simp add: StochasticDurationPredictor_forward_def sdp_features_def
      StochasticDurationPredictor_init_def Let_def)

theorem global_conditioning_before_branch_witness:
  "(- 1 :: int) \<le> 0 \<and>
   StochasticDurationPredictor_forward (StochasticDurationPredictor_init 4 (- 1) id_modules)
     [[[1]]] [[[1]]] None (Some [[[5]]]) False 1 [[[0], [0]]]
     = Inl (AttributeError ''StochasticDurationPredictor object has no attribute global_conv'') \<and>
   StochasticDurationPredictor_forward (StochasticDurationPredictor_init 4 (- 1) id_modules)
     [[[1]]] [[[1]]] None (Some [[[5]]]) True 1 [[[0], [0]]]
     = Inl (AttributeError ''StochasticDurationPredictor object has no attribute global_conv'') \<and>
   (1 :: int) > 0 \<and>
   sdp_features (StochasticDurationPredictor_init 4 1 id_modules) [[[1]]] [[[1]]] (Some [[[5]]])
     = Inr [[[6]]]"
proof -
  have a: "mul_mask (proj_m id_modules (dds_m id_modules
             (add_global (pre_m id_modules [[[1]]]) (global_conv_m id_modules [[[5]]])) [[[1]]])) [[[1]]]
           = [[[6]]]"
    by (simp add: id_modules_def add_global_def mul_mask_def mask_row_def)
  show ?thesis
    using global_conditioning_before_branch
            [of "- 1" 4 id_modules "[[[1]]]" "[[[1]]]" None "[[[5]]]" False 1 "[[[0], [0]]]"]
          global_conditioning_before_branch
            [of "- 1" 4 id_modules "[[[1]]]" "[[[1]]]" None "[[[5]]]" True 1 "[[[0], [0]]]"]
          global_conditioning_before_branch
            [of 1 4 id_modules "[[[1]]]" "[[[1]]]" None "[[[5]]]" False 1 "[[[0], [0]]]"]
    by (simp add: Let_def a)
qed

subsection \<open>The flow chain of the sampling branch\<close>

lemma sampling_flows_simps:
  "sampling_flows ([]::'a list) = Inl (IndexError ''list index out of range'')"
  "sampling_flows [a] = Inr [a]"
  "sampling_flows (a # b # rest) = Inr (rev rest @ [a])"
proof -
  show "sampling_flows ([]::'a list) = Inl (IndexError ''list index out of range'')"
    by (simp add: sampling_flows_def)
  show "sampling_flows [a] = Inr [a]"
    by (simp add: sampling_flows_def)
  have "rev rest @ [b, a] \<noteq> []" by simp
  then obtain y ys where e: "rev rest @ [b, a] = y # ys" by (meson neq_Nil_conv)
  have "take (length (rev rest @ [b, a]) - 2) (rev rest @ [b, a]) @ [last (rev rest @ [b, a])]
        = rev rest @ [a]" by simp
  then show "sampling_flows (a # b # rest) = Inr (rev rest @ [a])"
    unfolding sampling_flows_def Let_def rev.simps append_assoc append_Cons append_Nil
    using e by (simp del: take_append)
qed

lemma flow_chain_pos:
  assumes "0 < n"
  shows "flow_chain a c n =
     ElementwiseAffineFlow a # ConvFlow (c 0) # FlipFlow
       # concat (map (\<lambda>i. [ConvFlow (c i), FlipFlow]) [Suc 0..<nat n])"
proof -
  have "[0..<nat n] = 0 # [Suc 0..<nat n]" using assms by (simp add: upt_conv_Cons)
  then show ?thesis by (simp add: flow_chain_def)
qed

lemma flows_sdp4:
  "flows sdp4 = [ElementwiseAffineFlow id_fns, ConvFlow id_fns, FlipFlow, ConvFlow id_fns, FlipFlow,
                 ConvFlow id_fns, FlipFlow, ConvFlow id_fns, FlipFlow]"
  by (simp add: sdp4_def StochasticDurationPredictor_init_def flow_chain_def id_modules_def
      upt_rec)

lemma flows_loop_inverse_shape:
  assumes "\<forall>f\<in>set fl. inverse_keeps_shape f x_mask g B T" and "has_shape z B 2 T"
  shows "\<exists>z'. flows_loop_inverse fl z x_mask (Some g) = Inr z' \<and> has_shape z' B 2 T"
  using assms
proof (induction fl arbitrary: z)
  case Nil
  then show ?case by simp
next
  case (Cons f fl)
  from Cons.prems obtain z1 where
    c: "flow_call f z x_mask (Some g) True = Inr (Tensor_out z1)" and s: "has_shape z1 B 2 T"
    unfolding inverse_keeps_shape_def by (metis list.set_intros(1))
  from Cons.IH[OF _ s] Cons.prems(1) obtain z' where
    "flows_loop_inverse fl z1 x_mask (Some g) = Inr z'" "has_shape z' B 2 T" by auto
  then show ?case using c by simp
qed

lemma set_sampling_flows: "sampling_flows fs = Inr fl \<Longrightarrow> set fl \<subseteq> set fs"
proof (cases fs)
  case Nil
  assume "sampling_flows fs = Inr fl"
  then show ?thesis using Nil by (simp add: sampling_flows_simps)
next
  case (Cons a as)
  assume h: "sampling_flows fs = Inr fl"
  show ?thesis
  proof (cases as)
    case Nil
    then show ?thesis using h Cons by (auto simp: sampling_flows_simps)
  next
    case (Cons b rest)
    then show ?thesis using h \<open>fs = a # as\<close> by (auto simp: sampling_flows_simps)
  qed
qed

lemma split_ones_shape:
  "has_shape z B 2 T \<Longrightarrow> 0 < B \<Longrightarrow>
   split_ones z = Inr (map (take 1) z, map (drop 1) z) \<and> has_shape (map (take 1) z) B 1 T"
  by (simp add: split_ones_def size1_shape) (simp add: has_shape_iff)

lemma flip_shape: "has_shape x B C T \<Longrightarrow> has_shape (map rev x) B C T"
  by (simp add: has_shape_def list_all_iff)

lemma FlipFlow_inverse_keeps_shape: "inverse_keeps_shape FlipFlow x_mask g B T"
  by (simp add: inverse_keeps_shape_def FlipFlow_forward_def flip_shape)

lemma id_fns_inverse_keeps_shape:
  "inverse_keeps_shape (ElementwiseAffineFlow id_fns) x_mask g B T"
  "inverse_keeps_shape (ConvFlow id_fns) x_mask g B T"
  by (simp_all add: inverse_keeps_shape_def id_fns_def)

text \<open>The sampling branch does not read \<open>w\<close>.\<close>

lemma sampling_ignores_w:
  "StochasticDurationPredictor_forward P x x_mask w g True noise_scale noise
   = StochasticDurationPredictor_forward P x x_mask w' g True noise_scale noise"
  by (simp add: StochasticDurationPredictor_forward_def split: sum.splits)

lemma Dropout_eval: "Dropout p False keep = (\<lambda>a. a)"
  by (rule ext) (simp add: Dropout_def)

lemma sdp_call_eval: "\<not> training M \<Longrightarrow> sdp_call M keep = sdp_call M keep'"
  by (simp add: sdp_call_def Dropout_eval)

lemma flows_dropout:
  "flows (sdp_call (dropout_module t) keep) =
     [ElementwiseAffineFlow id_fns, ConvFlow shift_fns, FlipFlow, ConvFlow shift_fns, FlipFlow,
      ConvFlow shift_fns, FlipFlow, ConvFlow shift_fns, FlipFlow]"
  by (simp add: sdp_call_def dropout_module_def StochasticDurationPredictor_init_def
      flow_chain_def id_modules_def upt_rec)

lemma features_dropout:
  "sdp_features (sdp_call (dropout_module True) (\<lambda>_. [[[k]]])) [[[1]]] [[[1]]] None
     = Inr [[[1 + 2 * k]]]"
  "sdp_features (sdp_call (dropout_module False) (\<lambda>_. [[[k]]])) [[[1]]] [[[1]]] None
     = Inr [[[2]]]"
  by (simp_all add: sdp_features_def sdp_call_def dropout_module_def
      StochasticDurationPredictor_init_def id_modules_def Dropout_def
      mul_mask_def mask_row_def tadd_def ew2_def)

lemma sampling_dropout:
  "sdp_sampling (sdp_call (dropout_module t) keep) [[[h]]] [[[1]]] 1 [[[0], [0]]]
     = Inr (LogW [[[3 * h]]])"
  by (simp add: sdp_sampling_def flows_dropout sampling_flows_simps shift_fns_def id_fns_def
      FlipFlow_forward_def split_ones_def tensor_eval)

text \<open>
  Claim C8, as stated: two sampling runs with identical parameters, inputs and
  standard-normal draw return the same \<open>logw\<close>. In training mode the dropout layers of
  the dds stack draw keep masks of their own: with the feature 1, the noise 0 and
  \<open>dropout_rate = 0.5\<close>, the run whose mask keeps the element returns 9 and the run
  whose mask drops it returns 3.
\<close>

theorem sampling_depends_on_dropout_draw:
  "training (dropout_module True) \<and>
   StochasticDurationPredictor_forward (sdp_call (dropout_module True) (\<lambda>_. [[[1]]]))
     [[[1]]] [[[1]]] None None True 1 [[[0], [0]]] = Inr (LogW [[[9]]]) \<and>
   StochasticDurationPredictor_forward (sdp_call (dropout_module True) (\<lambda>_. [[[0]]]))
     [[[1]]] [[[1]]] None None True 1 [[[0], [0]]] = Inr (LogW [[[3]]]) \<and>
   [[[9]]] \<noteq> [[[3::real]]]"
proof -
  have "training (dropout_module True)" by (simp add: dropout_module_def)
  then show ?thesis
    by (simp add: StochasticDurationPredictor_forward_def features_dropout sampling_dropout)
qed

text \<open>
  Claim C8, amended. In evaluation mode, where dropout is inactive, or when the keep
  masks drawn by the dropout layers coincide as well, two sampling runs with identical
  parameters, inputs \<open>x\<close>, \<open>x_mask\<close>, \<open>g\<close>, \<open>noise_scale\<close> and standard-normal
  draw return the same result, whatever \<open>w\<close> each is given.
\<close>

theorem sampling_deterministic_given_all_draws:
  assumes "\<not> training M \<or> keep = keep'"
  shows "StochasticDurationPredictor_forward (sdp_call M keep) x x_mask w g True noise_scale noise
         = StochasticDurationPredictor_forward (sdp_call M keep') x x_mask w' g True noise_scale noise"
proof -
  have "sdp_call M keep = sdp_call M keep'"
    using assms sdp_call_eval by blast
  then show ?thesis
    by (simp add: StochasticDurationPredictor_forward_def split: sum.splits)
qed

theorem sampling_deterministic_given_all_draws_witness:
  "\<not> training (dropout_module False) \<and>
   StochasticDurationPredictor_forward (sdp_call (dropout_module False) (\<lambda>_. [[[1]]]))
     [[[1]]] [[[1]]] None None True 1 [[[0], [0]]] = Inr (LogW [[[6]]]) \<and>
   StochasticDurationPredictor_forward (sdp_call (dropout_module False) (\<lambda>_. [[[0]]]))
     [[[1]]] [[[1]]] (Some [[[2]]]) None True 1 [[[0], [0]]] = Inr (LogW [[[6]]]) \<and>
   StochasticDurationPredictor_forward (sdp_call (dropout_module True) (\<lambda>_. [[[1]]]))
     [[[1]]] [[[1]]] (Some [[[2]]]) None True 1 [[[0], [0]]] = Inr (LogW [[[9]]])"
proof -
  have t: "\<not> training (dropout_module False)" by (simp add: dropout_module_def)
  have v: "StochasticDurationPredictor_forward (sdp_call (dropout_module False) (\<lambda>_. [[[1]]]))
     [[[1]]] [[[1]]] None None True 1 [[[0], [0]]] = Inr (LogW [[[6]]])"
    by (simp add: StochasticDurationPredictor_forward_def features_dropout sampling_dropout)
  have u: "StochasticDurationPredictor_forward (sdp_call (dropout_module True) (\<lambda>_. [[[1]]]))
     [[[1]]] [[[1]]] None None True 1 [[[0], [0]]] = Inr (LogW [[[9]]])"
    by (simp add: StochasticDurationPredictor_forward_def features_dropout sampling_dropout)
  show ?thesis
    using sampling_deterministic_given_all_draws
            [of "dropout_module False" "\<lambda>_. [[[1]]]" "\<lambda>_. [[[0]]]" "[[[1]]]" "[[[1]]]" None None
                1 "[[[0], [0]]]" "Some [[[2]]]"]
          sampling_deterministic_given_all_draws
            [of "dropout_module True" "\<lambda>_. [[[1]]]" "\<lambda>_. [[[1]]]" "[[[1]]]" "[[[1]]]" None None
                1 "[[[0], [0]]]" "Some [[[2]]]"]
          t v u
    by simp
qed

text \<open>
  Claim C4, as stated: the sampling chain is the reversed training chain with one
  flip-flow stage removed. With the default four flows the reversed chain has four
  \<open>ConvFlow\<close> stages and the sampling chain three: the stage that
  \<open>flows[:-2] + [flows[-1]]\<close> drops is a \<open>ConvFlow\<close>, so no removal of a
  \<open>FlipFlow\<close> yields the sampling chain.
\<close>

theorem sampling_chain_removes_no_flip_flow:
  "sampling_flows (flows sdp4) =
     Inr [FlipFlow, ConvFlow id_fns, FlipFlow, ConvFlow id_fns, FlipFlow, ConvFlow id_fns,
          FlipFlow, ElementwiseAffineFlow id_fns] \<and>
   \<not> (\<exists>pre post. rev (flows sdp4) = pre @ FlipFlow # post
                 \<and> sampling_flows (flows sdp4) = Inr (pre @ post))"
proof
  show s: "sampling_flows (flows sdp4) =
     Inr [FlipFlow, ConvFlow id_fns, FlipFlow, ConvFlow id_fns, FlipFlow, ConvFlow id_fns,
          FlipFlow, ElementwiseAffineFlow id_fns]"
    by (simp add: flows_sdp4 sampling_flows_simps)
  show "\<not> (\<exists>pre post. rev (flows sdp4) = pre @ FlipFlow # post
                 \<and> sampling_flows (flows sdp4) = Inr (pre @ post))"
  proof
    assume "\<exists>pre post. rev (flows sdp4) = pre @ FlipFlow # post
                 \<and> sampling_flows (flows sdp4) = Inr (pre @ post)"
    then obtain pre post where r: "rev (flows sdp4) = pre @ FlipFlow # post"
      and q: "sampling_flows (flows sdp4) = Inr (pre @ post)" by blast
    have "length (filter is_ConvFlow (rev (flows sdp4))) = 4" by (simp add: flows_sdp4)
    then have "length (filter is_ConvFlow (pre @ post)) = 4" by (simp add: r)
    moreover have "pre @ post = [FlipFlow, ConvFlow id_fns, FlipFlow, ConvFlow id_fns, FlipFlow,
          ConvFlow id_fns, FlipFlow, ElementwiseAffineFlow id_fns]"
      using q unfolding s by simp
    then have "length (filter is_ConvFlow (pre @ post)) = 3"
      by (simp only: filter.simps is_ConvFlow.simps if_True if_False list.size)
    ultimately show False by simp
  qed
qed

text \<open>
  Claim C4, amended. For a predictor built with at least one flow, the sampling chain is
  the reversed training chain without its second-to-last stage, which is the first
  \<open>ConvFlow\<close> of the training chain (every \<open>FlipFlow\<close> is kept). When the stages keep
  the shape \<open>(B, 2, T)\<close> of the scaled noise, sampling mode runs that chain, splits the
  2-channel result and returns its first channel, of shape \<open>(B, 1, T)\<close>.
\<close>

theorem sampling_drops_first_conv_flow:
  assumes "0 < nflows"
    and "P = StochasticDurationPredictor_init nflows global_channels M"
    and "sdp_features P x x_mask g = Inr h"
    and "has_shape noise B 2 T" and "0 < B"
    and "\<forall>f\<in>set (flows P). inverse_keeps_shape f x_mask h B T"
  shows "\<exists>pre z. rev (flows P) = pre @ [ConvFlow (conv_m M 0), ElementwiseAffineFlow (affine_m M)]
           \<and> sampling_flows (flows P) = Inr (pre @ [ElementwiseAffineFlow (affine_m M)])
           \<and> flows_loop_inverse (pre @ [ElementwiseAffineFlow (affine_m M)])
                (ew1 (\<lambda>v. v * noise_scale) noise) x_mask (Some h) = Inr z
           \<and> has_shape z B 2 T
           \<and> StochasticDurationPredictor_forward P x x_mask w g True noise_scale noise
               = Inr (LogW (map (take 1) z))
           \<and> has_shape (map (take 1) z) B 1 T"
proof -
  define rest where
    "rest = concat (map (\<lambda>i. [ConvFlow (conv_m M i), FlipFlow]) [Suc 0..<nat nflows])"
  define pre where "pre = rev rest @ [FlipFlow]"
  define a where "a = ElementwiseAffineFlow (affine_m M)"
  have fl: "flows P = a # ConvFlow (conv_m M 0) # FlipFlow # rest"
    using flow_chain_pos[OF assms(1)]
    by (simp add: assms(2) StochasticDurationPredictor_init_def rest_def a_def)
  have r: "rev (flows P) = pre @ [ConvFlow (conv_m M 0), a]"
    by (simp add: fl pre_def)
  have s: "sampling_flows (flows P) = Inr (pre @ [a])"
    by (simp add: fl pre_def sampling_flows_simps)
  have "set (pre @ [a]) \<subseteq> set (flows P)" using s by (rule set_sampling_flows)
  then have k: "\<forall>f\<in>set (pre @ [a]). inverse_keeps_shape f x_mask h B T"
    using assms(6) by blast
  have n: "has_shape (ew1 (\<lambda>v. v * noise_scale) noise) B 2 T"
    using assms(4) by (rule ew1_shape)
  from flows_loop_inverse_shape[OF k n] obtain z where
    z: "flows_loop_inverse (pre @ [a]) (ew1 (\<lambda>v. v * noise_scale) noise) x_mask (Some h) = Inr z"
    and zs: "has_shape z B 2 T" by blast
  have sp: "split_ones z = Inr (map (take 1) z, map (drop 1) z)"
    and ls: "has_shape (map (take 1) z) B 1 T"
    using split_ones_shape[OF zs assms(5)] by simp_all
  have "StochasticDurationPredictor_forward P x x_mask w g True noise_scale noise
               = Inr (LogW (map (take 1) z))"
    by (simp add: StochasticDurationPredictor_forward_def assms(3) sdp_sampling_def s z sp)
  then show ?thesis using r s z zs ls unfolding a_def by blast
qed

theorem sampling_drops_first_conv_flow_witness:
  "(0::int) < 4 \<and> has_shape [[[1], [2]]] 1 2 1 \<and>
   (\<exists>logw. StochasticDurationPredictor_forward sdp4 [[[1]]] [[[1]]] None None True 1 [[[1], [2]]]
              = Inr (LogW logw) \<and> has_shape logw 1 1 1)"
proof -
  have k: "\<forall>f\<in>set (flows sdp4). inverse_keeps_shape f [[[1]]] [[[1]]] 1 1"
    by (simp add: flows_sdp4 FlipFlow_inverse_keeps_shape id_fns_inverse_keeps_shape)
  have n: "has_shape [[[1], [2]]] 1 2 1" by (simp add: has_shape_def)
  have p: "sdp4 = StochasticDurationPredictor_init 4 (- 1) id_modules" by (simp add: sdp4_def)
  from sampling_drops_first_conv_flow
         [of 4 sdp4 "- 1" id_modules "[[[1]]]" "[[[1]]]" None "[[[1]]]" "[[[1], [2]]]" 1 1 1 None,
          OF _ p sdp4_features n _ k]
  show ?thesis using n by auto
qed

section \<open>The feature extraction script\<close>

lemma files_log_event: "files (log_event e w) = files w"
  by (simp add: log_event_def)

lemma trace_log_event: "trace (log_event e w) = trace w @ [e]"
  by (simp add: log_event_def)

lemma skip_unfold:
  assumes "files w ''data/fbank/ljspeech_cuts_all.jsonl.gz'' \<noteq> None"
  shows "compute_spectrogram_ljspeech E w =
     (case cpu_count E of
        None \<Rightarrow> (Inl (TypeError ''not supported between instances of NoneType and int''), w)
      | Some n \<Rightarrow>
         (case load_manifest E (files w) ''data/manifests/ljspeech_recordings_all.jsonl.gz'' of
            Inl e \<Rightarrow> (Inl e, log_event (LoadManifest ''data/manifests/ljspeech_recordings_all.jsonl.gz'') w)
          | Inr r \<Rightarrow>
             (case load_manifest E (files w) ''data/manifests/ljspeech_supervisions_all.jsonl.gz'' of
                Inl e \<Rightarrow> (Inl e, log_event (LoadManifest ''data/manifests/ljspeech_supervisions_all.jsonl.gz'')
                                 (log_event (LoadManifest ''data/manifests/ljspeech_recordings_all.jsonl.gz'') w))
              | Inr s \<Rightarrow> (Inr (), log_event (LogInfo ''ljspeech_cuts_all.jsonl.gz already exists - skipping.'')
                              (log_event (LoadManifest ''data/manifests/ljspeech_supervisions_all.jsonl.gz'')
                                 (log_event (LoadManifest ''data/manifests/ljspeech_recordings_all.jsonl.gz'') w))))))"
  using assms
  by (simp add: compute_spectrogram_ljspeech_def Let_def path_join_def files_log_event
      split: option.splits sum.splits)

text \<open>
  Claim C10, as stated: if \<open>data/fbank/ljspeech_cuts_all.jsonl.gz\<close> exists, the
  function returns. The check of line 77 comes after \<open>os.cpu_count()\<close> and the two
  manifest loads of lines 49 to 64: with the cuts file present, the function raises
  when a manifest is missing, and when \<open>os.cpu_count()\<close> returns \<open>None\<close>.
\<close>

theorem skip_raises_before_the_check:
  "files world_cuts_only ''data/fbank/ljspeech_cuts_all.jsonl.gz'' \<noteq> None \<and>
   compute_spectrogram_ljspeech externals0 world_cuts_only
     = (Inl (FileNotFoundError ''data/manifests/ljspeech_recordings_all.jsonl.gz''),
        \<lparr>files = fs_cuts_only,
         trace = [LoadManifest ''data/manifests/ljspeech_recordings_all.jsonl.gz'']\<rparr>) \<and>
   files world0 ''data/fbank/ljspeech_cuts_all.jsonl.gz'' \<noteq> None \<and>
   compute_spectrogram_ljspeech externals_no_cpu_count world0
     = (Inl (TypeError ''not supported between instances of NoneType and int''), world0)"
  by (simp add: compute_spectrogram_ljspeech_def Let_def path_join_def log_event_def
      world_cuts_only_def fs_cuts_only_def externals0_def externals_no_cpu_count_def
      world0_def fs0_def)

text \<open>
  Claim C10, amended. If \<open>data/fbank/ljspeech_cuts_all.jsonl.gz\<close> exists,
  \<open>compute_spectrogram_ljspeech\<close> leaves every file as it was and neither builds a
  cut set, nor computes features, nor writes an output, whether it returns or raises;
  and if \<open>os.cpu_count()\<close> returns a number and the two manifest loads that precede
  the check succeed, it returns.
\<close>

theorem skip_when_cuts_exist:
  assumes "files w ''data/fbank/ljspeech_cuts_all.jsonl.gz'' \<noteq> None"
  shows "files (snd (compute_spectrogram_ljspeech E w)) = files w \<and>
         (\<exists>evs. trace (snd (compute_spectrogram_ljspeech E w)) = trace w @ evs
                \<and> \<not> list_ex is_processing evs) \<and>
         (\<forall>n r s. cpu_count E = Some n
            \<and> load_manifest E (files w) ''data/manifests/ljspeech_recordings_all.jsonl.gz'' = Inr r
            \<and> load_manifest E (files w) ''data/manifests/ljspeech_supervisions_all.jsonl.gz'' = Inr s
            \<longrightarrow> fst (compute_spectrogram_ljspeech E w) = Inr ())"
  unfolding skip_unfold[OF assms]
  by (auto simp: files_log_event trace_log_event split: option.splits sum.splits)

theorem skip_when_cuts_exist_witness:
  "files world0 ''data/fbank/ljspeech_cuts_all.jsonl.gz'' \<noteq> None \<and>
   files (snd (compute_spectrogram_ljspeech externals0 world0)) = files world0 \<and>
   fst (compute_spectrogram_ljspeech externals0 world0) = Inr ()"
proof -
  have h: "files world0 ''data/fbank/ljspeech_cuts_all.jsonl.gz'' \<noteq> None"
    by (simp add: world0_def fs0_def)
  have c: "cpu_count externals0 = Some 8" by (simp add: externals0_def)
  have r: "load_manifest externals0 (files world0)
             ''data/manifests/ljspeech_recordings_all.jsonl.gz'' = Inr ''recordings''"
    by (simp add: externals0_def world0_def fs0_def)
  have s: "load_manifest externals0 (files world0)
             ''data/manifests/ljspeech_supervisions_all.jsonl.gz'' = Inr ''supervisions''"
    by (simp add: externals0_def world0_def fs0_def)
  show ?thesis using skip_when_cuts_exist[OF h, of externals0] h c r s by blast
qed

section \<open>The residual coupling layers\<close>

lemma row_mask_idem:
  "list_all (\<lambda>v. v = 0 \<or> v = 1) mr \<Longrightarrow> map2 (*) (map2 (*) row mr) mr = map2 (*) row (mr::real list)"
  by (induction row mr rule: list_induct2') auto

lemma mask_row_01: "list_all (list_all (\<lambda>v. v = 0 \<or> v = 1)) mb \<Longrightarrow> list_all (\<lambda>v. v = 0 \<or> v = (1::real)) (mask_row mb)"
  by (cases mb) (simp_all add: mask_row_def)

lemma mul_mask_idem:
  assumes "mask01 x_mask"
  shows "mul_mask (mul_mask a x_mask) x_mask = mul_mask a x_mask"
  using assms unfolding mask01_def
proof (induction a x_mask rule: list_induct2')
  case (4 ab a mb m)
  then have "list_all (\<lambda>v. v = 0 \<or> v = 1) (mask_row mb)" by (simp add: mask_row_01)
  then have "map (\<lambda>row. map2 (*) row (mask_row mb)) (map (\<lambda>row. map2 (*) row (mask_row mb)) ab)
           = map (\<lambda>row. map2 (*) row (mask_row mb)) ab"
    by (simp add: row_mask_idem)
  moreover have "mul_mask (mul_mask a m) m = mul_mask a m" using 4 by simp
  ultimately show ?case by (simp add: mul_mask_def)
qed (simp_all add: mul_mask_def)

lemma mul_mask_drop: "mul_mask (map (drop k) a) x_mask = map (drop k) (mul_mask a x_mask)"
  by (induction a x_mask rule: list_induct2') (simp_all add: mul_mask_def drop_map)

lemma mul_mask_take: "mul_mask (map (take k) a) x_mask = map (take k) (mul_mask a x_mask)"
  by (induction a x_mask rule: list_induct2') (simp_all add: mul_mask_def take_map)

lemma row_zeros_mask: "map (\<lambda>_. 0) (map2 (*) row mr) = map2 (*) (map (\<lambda>_. 0) row) (mr::real list)"
  by (induction row mr rule: list_induct2') simp_all

lemma row_zeros_mask':
  "map ((\<lambda>_. 0) \<circ> (\<lambda>(x, y). x * y)) (zip row mr) = map2 (*) (map (\<lambda>_. 0) row) (mr::real list)"
  by (induction row mr rule: list_induct2') simp_all

lemma zeros_like_mul_mask: "zeros_like (mul_mask s x_mask) = mul_mask (zeros_like s) x_mask"
proof (induction s x_mask rule: list_induct2')
  case (4 ab a mb m)
  have "map (map (\<lambda>_. 0)) (map (\<lambda>row. map2 (*) row (mask_row mb)) ab)
        = map (\<lambda>row. map2 (*) row (mask_row mb)) (map (map (\<lambda>_. 0)) ab)"
    by (induction ab) (simp_all add: row_zeros_mask')
  moreover have "map (map (map (\<lambda>_. 0))) (mul_mask a m) = mul_mask (map (map (map (\<lambda>_. 0))) a) m"
    using 4 by (simp add: zeros_like_def ew1_def)
  ultimately show ?case by (simp add: mul_mask_def zeros_like_def ew1_def)
qed (simp_all add: mul_mask_def zeros_like_def ew1_def)

lemma sum12_zeros_like: "sum12 (zeros_like a) = map (\<lambda>_. 0) a"
proof -
  have r: "\<And>row::real list. sum_list (map (\<lambda>_. 0::real) row) = 0"
    by (simp add: sum_list_0)
  have "\<And>ab::real list list. sum_list (map sum_list (map (map (\<lambda>_. 0::real)) ab)) = 0"
  proof -
    fix ab :: "real list list"
    show "sum_list (map sum_list (map (map (\<lambda>_. 0::real)) ab)) = 0"
      by (induction ab) (simp_all add: r)
  qed
  then show ?thesis by (simp add: sum12_def zeros_like_def ew1_def)
qed

lemma RACL_forward_unfold:
  "RACL_forward L x x_mask g inverse' =
     (case split_half x of
        Inl e \<Rightarrow> Inl e
      | Inr (xa, xb) \<Rightarrow>
          (case split_stats (use_only_mean L) (RACL_stats L xa x_mask g) of
             Inl e \<Rightarrow> Inl e
           | Inr (m, logs) \<Rightarrow> Inr (affine_update xa xb m logs x_mask inverse')))"
  by (simp add: RACL_forward_def RACL_stats_def Let_def split: sum.splits prod.splits)

lemma stats_masked:
  assumes "mask01 x_mask" and "split_stats om (mul_mask s x_mask) = Inr (m, logs)"
  shows "mul_mask logs x_mask = logs"
proof (cases om)
  case True
  then have "logs = zeros_like (mul_mask s x_mask)" using assms(2) by (auto simp: split_stats_def)
  then show ?thesis by (simp add: zeros_like_mul_mask mul_mask_idem[OF assms(1)])
next
  case False
  then have "split_half (mul_mask s x_mask) = Inr (m, logs)" using assms(2) by (simp add: split_stats_def)
  then obtain k where "logs = map (drop k) (mul_mask s x_mask)"
    by (auto simp: split_half_def Let_def split: if_splits)
  then show ?thesis by (simp add: mul_mask_drop mul_mask_idem[OF assms(1)])
qed

text \<open>
  The forward direction of \<open>ResidualAffineCouplingLayer\<close>, the sibling of the
  transformers layer: with \<open>x\<close>
  split into \<open>xa\<close> and \<open>xb\<close> and with \<open>m\<close> and \<open>logs\<close> the statistics derived from
  \<open>xa\<close>, the output is the concatenation of \<open>xa\<close> and
  \<open>m + xb * exp(logs) * x_mask\<close>, and the log-determinant is the sum of
  \<open>logs * x_mask\<close> over channels and time, for a mask with values 0 and 1. When only
  the mean is estimated \<open>logs\<close> is zero and so is the log-determinant.
\<close>

lemma affine_coupling_forward:
  assumes "split_half x = Inr (xa, xb)"
    and "split_stats (use_only_mean L) (RACL_stats L xa x_mask g) = Inr (m, logs)"
    and "mask01 x_mask"
  shows "RACL_forward L x x_mask g False
           = Inr (Pair_out (cat1 xa (tadd m (mul_mask (tmul xb (texp logs)) x_mask)))
                           (sum12 (mul_mask logs x_mask))) \<and>
         (use_only_mean L \<longrightarrow> logs = zeros_like m \<and> sum12 (mul_mask logs x_mask) = map (\<lambda>_. 0) m)"
proof -
  have k: "mul_mask logs x_mask = logs"
    using assms(3) assms(2) unfolding RACL_stats_def by (rule stats_masked)
  have "RACL_forward L x x_mask g False
           = Inr (Pair_out (cat1 xa (tadd m (mul_mask (tmul xb (texp logs)) x_mask))) (sum12 logs))"
    by (simp add: RACL_forward_unfold assms(1,2) affine_update_def)
  moreover have "use_only_mean L \<longrightarrow> logs = zeros_like m \<and> sum12 logs = map (\<lambda>_. 0) m"
    using assms(2) by (auto simp: split_stats_def sum12_zeros_like)
  moreover have e: "sum12 (mul_mask logs x_mask) = sum12 logs" by (simp add: k)
  ultimately show ?thesis unfolding e by blast
qed

lemma affine_coupling_forward_example:
  "split_half [[[1], [2]]] = Inr ([[[1]]], [[[2]]]) \<and> mask01 [[[1]]] \<and>
   split_stats (use_only_mean plain_layer) (RACL_stats plain_layer [[[1]]] [[[1]]] None)
     = Inr ([[[1]]], [[[1]]]) \<and>
   RACL_forward plain_layer [[[1], [2]]] [[[1]]] None False
     = Inr (Pair_out [[[1], [1 + 2 * exp 1]]] [1]) \<and>
   use_only_mean mean_layer \<and>
   split_stats (use_only_mean mean_layer) (RACL_stats mean_layer [[[1]]] [[[1]]] None)
     = Inr ([[[1]]], [[[0]]]) \<and>
   RACL_forward mean_layer [[[1], [2]]] [[[1]]] None False = Inr (Pair_out [[[1], [3]]] [0])"
proof -
  have s: "split_half [[[1], [2]]] = Inr ([[[1]]], [[[2]]])"
    by (simp add: split_half_def size1_def)
  have k: "mask01 [[[1]]]" by (simp add: mask01_def)
  have p: "split_stats (use_only_mean plain_layer) (RACL_stats plain_layer [[[1]]] [[[1]]] None)
             = Inr ([[[1]]], [[[1]]])"
    by (simp add: plain_layer_def RACL_stats_def split_stats_def split_half_def size1_def
        mul_mask_def mask_row_def cat1_def)
  have q: "split_stats (use_only_mean mean_layer) (RACL_stats mean_layer [[[1]]] [[[1]]] None)
             = Inr ([[[1]]], [[[0]]])"
    by (simp add: mean_layer_def RACL_stats_def split_stats_def mul_mask_def mask_row_def
        zeros_like_def ew1_def)
  have u: "use_only_mean mean_layer" by (simp add: mean_layer_def)
  have e: "cat1 [[[1]]] (tadd [[[1]]] (mul_mask (tmul [[[2]]] (texp [[[1]]])) [[[1]]]))
             = [[[1], [1 + 2 * exp 1]]]"
          "sum12 (mul_mask [[[1]]] [[[1]]]) = [1]"
          "cat1 [[[1]]] (tadd [[[1]]] (mul_mask (tmul [[[2]]] (texp [[[0]]])) [[[1]]]))
             = [[[1], [3]]]"
          "sum12 (mul_mask [[[0]]] [[[1]]]) = [0]"
    by (simp_all add: cat1_def tadd_def tmul_def texp_def ew1_def ew2_def mul_mask_def
        mask_row_def sum12_def)
  show ?thesis
    using affine_coupling_forward [OF s p k] affine_coupling_forward [OF s q k] s k p q u
    by (simp add: e)
qed

subsection \<open>The affine layer passes \<open>xa\<close> through and is inverted by its inverse\<close>

lemma RACL_first_half:
  assumes "has_shape x B (2 * k) T" and "0 < B" and "0 < k"
    and "split_stats (use_only_mean L) (RACL_stats L (map (take k) x) x_mask g) = Inr (m, logs)"
    and "length m = B" and "length logs = B" and "length x_mask = B"
  shows "\<exists>y. (RACL_forward L x x_mask g inverse' = Inr (Tensor_out y)
              \<or> (\<exists>logdet. RACL_forward L x x_mask g inverse' = Inr (Pair_out y logdet)))
             \<and> map (take k) y = map (take k) x"
proof -
  note sp = split_half_shape[OF assms(1,2,3)]
  have lx: "length (map (drop k) x) = B" using sp(3) by (simp add: has_shape_iff)
  have l1: "length (tadd m (mul_mask (tmul (map (drop k) x) (texp logs)) x_mask)) = B"
    using assms(5,6,7) lx by (simp add: tadd_def tmul_def texp_def ew2_def ew1_def mul_mask_def)
  have l2: "length (mul_mask (tmul (tsub (map (drop k) x) m) (texp (tneg logs))) x_mask) = B"
    using assms(5,6,7) lx by (simp add: tsub_def tmul_def texp_def tneg_def ew2_def ew1_def mul_mask_def)
  show ?thesis
    by (cases inverse')
       (simp_all add: RACL_forward_unfold sp(1) assms(4) affine_update_def
         take_cat1[OF sp(2) l1] take_cat1[OF sp(2) l2])
qed

lemma arith_shape:
  "has_shape a B C T \<Longrightarrow> has_shape b B C T \<Longrightarrow> has_shape (tadd a b) B C T"
  "has_shape a B C T \<Longrightarrow> has_shape b B C T \<Longrightarrow> has_shape (tsub a b) B C T"
  "has_shape a B C T \<Longrightarrow> has_shape b B C T \<Longrightarrow> has_shape (tmul a b) B C T"
  "has_shape a B C T \<Longrightarrow> has_shape (texp a) B C T"
  "has_shape a B C T \<Longrightarrow> has_shape (tneg a) B C T"
  "has_shape a B C T \<Longrightarrow> has_shape (zeros_like a) B C T"
  by (simp_all add: tadd_def tsub_def tmul_def texp_def tneg_def zeros_like_def ew1_shape ew2_shape)

lemma arith_nth:
  assumes "i < B" and "c < C" and "t < T"
  shows "has_shape a B C T \<Longrightarrow> has_shape b B C T \<Longrightarrow> tadd a b ! i ! c ! t = a ! i ! c ! t + b ! i ! c ! t"
    and "has_shape a B C T \<Longrightarrow> has_shape b B C T \<Longrightarrow> tsub a b ! i ! c ! t = a ! i ! c ! t - b ! i ! c ! t"
    and "has_shape a B C T \<Longrightarrow> has_shape b B C T \<Longrightarrow> tmul a b ! i ! c ! t = a ! i ! c ! t * b ! i ! c ! t"
    and "has_shape a B C T \<Longrightarrow> texp a ! i ! c ! t = exp (a ! i ! c ! t)"
    and "has_shape a B C T \<Longrightarrow> tneg a ! i ! c ! t = - (a ! i ! c ! t)"
  using assms
  by (simp_all add: tadd_def tsub_def tmul_def texp_def tneg_def ew1_nth ew2_nth)

lemma affine_roundtrip:
  assumes xb: "has_shape xb B k T" and m: "has_shape m B k T" and l: "has_shape logs B k T"
    and k: "has_shape x_mask B (Suc 0) T"
    and z: "mul_mask xb x_mask = xb"
  shows "mul_mask (tmul (tsub (tadd m (mul_mask (tmul xb (texp logs)) x_mask)) m) (texp (tneg logs))) x_mask = xb"
proof (rule tensor_eqI)
  let ?e = "texp logs"
  let ?f = "mul_mask (tmul xb ?e) x_mask"
  let ?y = "tadd m ?f"
  let ?d = "tsub ?y m"
  let ?n = "texp (tneg logs)"
  have se: "has_shape ?e B k T" using l by (rule arith_shape)
  have sx: "has_shape (tmul xb ?e) B k T" using xb se by (rule arith_shape)
  have sf: "has_shape ?f B k T" using sx k by (rule mul_mask_shape)
  have sy: "has_shape ?y B k T" using m sf by (rule arith_shape)
  have sd: "has_shape ?d B k T" using sy m by (rule arith_shape)
  have sg: "has_shape (tneg logs) B k T" using l by (rule arith_shape)
  have sn: "has_shape ?n B k T" using sg by (rule arith_shape)
  have sp: "has_shape (tmul ?d ?n) B k T" using sd sn by (rule arith_shape)
  show "has_shape (mul_mask (tmul ?d ?n) x_mask) B k T" using sp k by (rule mul_mask_shape)
  show "has_shape xb B k T" by (rule xb)
  fix b c t assume i: "b < B" "c < k" "t < T"
  let ?mk = "x_mask ! b ! 0 ! t"
  let ?v = "xb ! b ! c ! t"
  let ?l = "logs ! b ! c ! t"
  have v: "?v * ?mk = ?v"
    using mul_mask_nth[OF xb k i] by (simp add: z)
  have "mul_mask (tmul ?d ?n) x_mask ! b ! c ! t = tmul ?d ?n ! b ! c ! t * ?mk"
    using sp k i by (rule mul_mask_nth)
  also have "tmul ?d ?n ! b ! c ! t = ?d ! b ! c ! t * ?n ! b ! c ! t"
    using i sd sn by (rule arith_nth)
  also have "?n ! b ! c ! t = exp (- ?l)"
    by (simp add: arith_nth(4)[OF i sg] arith_nth(5)[OF i l])
  also have "?d ! b ! c ! t = ?y ! b ! c ! t - m ! b ! c ! t"
    using i sy m by (rule arith_nth)
  also have "?y ! b ! c ! t = m ! b ! c ! t + ?f ! b ! c ! t"
    using i m sf by (rule arith_nth)
  also have "?f ! b ! c ! t = tmul xb ?e ! b ! c ! t * ?mk"
    using sx k i by (rule mul_mask_nth)
  also have "tmul xb ?e ! b ! c ! t = ?v * ?e ! b ! c ! t"
    using i xb se by (rule arith_nth)
  also have "?e ! b ! c ! t = exp ?l"
    using i l by (rule arith_nth)
  finally have "mul_mask (tmul ?d ?n) x_mask ! b ! c ! t
                 = (m ! b ! c ! t + ?v * exp ?l * ?mk - m ! b ! c ! t) * exp (- ?l) * ?mk" .
  also have "\<dots> = (?v * ?mk) * ?mk * (exp ?l * exp (- ?l))" by (simp add: algebra_simps)
  also have "\<dots> = ?v" by (simp add: v exp_minus_inverse)
  finally show "mul_mask (tmul ?d ?n) x_mask ! b ! c ! t = xb ! b ! c ! t" .
qed

lemma stats_mean_masked:
  assumes "mask01 x_mask" and "split_stats om (mul_mask s x_mask) = Inr (m, logs)"
  shows "mul_mask m x_mask = m"
proof (cases om)
  case True
  then have "m = mul_mask s x_mask" using assms(2) by (auto simp: split_stats_def)
  then show ?thesis by (simp add: mul_mask_idem[OF assms(1)])
next
  case False
  then have "split_half (mul_mask s x_mask) = Inr (m, logs)"
    using assms(2) by (simp add: split_stats_def)
  then obtain k where "m = map (take k) (mul_mask s x_mask)"
    by (auto simp: split_half_def Let_def split: if_splits)
  then show ?thesis by (simp add: mul_mask_take mul_mask_idem[OF assms(1)])
qed

lemma RACL_inverse_forward:
  assumes x: "has_shape x B (2 * k) T" and B: "0 < B" and k: "0 < k"
    and mk: "has_shape x_mask B (Suc 0) T" and k01: "mask01 x_mask"
    and z: "mul_mask x x_mask = x"
    and st: "split_stats (use_only_mean L) (RACL_stats L (map (take k) x) x_mask g) = Inr (m, logs)"
    and m: "has_shape m B k T" and l: "has_shape logs B k T"
  shows "\<exists>y logdet. RACL_forward L x x_mask g False = Inr (Pair_out y logdet)
           \<and> has_shape y B (2 * k) T \<and> mul_mask y x_mask = y
           \<and> RACL_forward L y x_mask g True = Inr (Tensor_out x)"
proof -
  let ?xa = "map (take k) x"
  let ?xb = "map (drop k) x"
  let ?f = "mul_mask (tmul ?xb (texp logs)) x_mask"
  let ?xb' = "tadd m ?f"
  let ?y = "cat1 ?xa ?xb'"
  note sp = split_half_shape[OF x B k]
  have zb: "mul_mask ?xb x_mask = ?xb" by (simp add: mul_mask_drop z)
  have za: "mul_mask ?xa x_mask = ?xa" by (simp add: mul_mask_take z)
  have zm: "mul_mask m x_mask = m"
    using k01 st unfolding RACL_stats_def by (rule stats_mean_masked)
  have sf: "has_shape ?f B k T"
    by (intro arith_shape mul_mask_shape sp(3) m l mk)
  have sb': "has_shape ?xb' B k T" using m sf by (rule arith_shape)
  have f: "RACL_forward L x x_mask g False = Inr (Pair_out ?y (sum12 logs))"
    by (simp add: RACL_forward_unfold sp(1) st affine_update_def)
  have sy: "has_shape ?y B (2 * k) T"
    using cat1_shape[OF sp(2) sb'] by (simp add: mult_2)
  have spy: "split_half ?y = Inr (?xa, ?xb')"
    using sp(2) sb' B k by (rule split_half_cat1)
  have rt: "mul_mask (tmul (tsub ?xb' m) (texp (tneg logs))) x_mask = ?xb"
    using sp(3) m l mk zb by (rule affine_roundtrip)
  have i: "RACL_forward L ?y x_mask g True = Inr (Tensor_out x)"
    by (simp add: RACL_forward_unfold spy st affine_update_def rt sp(4))
  have zf: "mul_mask ?f x_mask = ?f" by (rule mul_mask_idem[OF k01])
  have zb': "mul_mask ?xb' x_mask = ?xb'"
  proof (rule tensor_eqI[OF mul_mask_shape[OF sb' mk] sb'])
    fix b c t assume j: "b < B" "c < k" "t < T"
    have "mul_mask ?xb' x_mask ! b ! c ! t = ?xb' ! b ! c ! t * x_mask ! b ! 0 ! t"
      using sb' mk j by (rule mul_mask_nth)
    also have "?xb' ! b ! c ! t = m ! b ! c ! t + ?f ! b ! c ! t"
      using j m sf by (rule arith_nth)
    also have "(m ! b ! c ! t + ?f ! b ! c ! t) * x_mask ! b ! 0 ! t
               = mul_mask m x_mask ! b ! c ! t + mul_mask ?f x_mask ! b ! c ! t"
      by (simp add: mul_mask_nth[OF m mk j] mul_mask_nth[OF sf mk j] algebra_simps)
    also have "\<dots> = ?xb' ! b ! c ! t"
      by (simp only: zm zf arith_nth(1)[OF j m sf])
    finally show "mul_mask ?xb' x_mask ! b ! c ! t = ?xb' ! b ! c ! t" .
  qed
  have my: "mul_mask ?y x_mask = ?y"
  proof -
    have "mul_mask ?y x_mask = cat1 (mul_mask ?xa x_mask) (mul_mask ?xb' x_mask)"
      by (rule nth_equalityI) (simp_all add: cat1_def mul_mask_def)
    then show ?thesis by (simp only: za zb')
  qed
  show ?thesis using f i sy my by blast
qed

lemma mul_mask_flip: "mul_mask (map rev x) x_mask = map rev (mul_mask x x_mask)"
  by (induction x x_mask rule: list_induct2') (simp_all add: mul_mask_def rev_map)

lemma affine_stage_inverse_forward:
  assumes a: "affine_stage f x_mask g B k T"
    and x: "has_shape x B (2 * k) T" and B: "0 < B" and k: "0 < k"
    and mk: "has_shape x_mask B (Suc 0) T" and k01: "mask01 x_mask"
    and z: "mul_mask x x_mask = x"
  shows "\<exists>y logdet. flow_call f x x_mask g False = Inr (Pair_out y logdet)
           \<and> has_shape y B (2 * k) T \<and> mul_mask y x_mask = y
           \<and> flow_call f y x_mask g True = Inr (Tensor_out x)"
proof (cases f)
  case (ResidualAffineCouplingLayer L)
  have "has_shape (map (take k) x) B k T" using split_half_shape(2)[OF x B k] .
  with a ResidualAffineCouplingLayer obtain m logs where
    st: "split_stats (use_only_mean L) (RACL_stats L (map (take k) x) x_mask g) = Inr (m, logs)"
    and m: "has_shape m B k T" and l: "has_shape logs B k T"
    by (auto simp: stats_ok_def)
  show ?thesis
    using RACL_inverse_forward[OF x B k mk k01 z st m l] ResidualAffineCouplingLayer by simp
next
  case FlipFlow
  have "map rev (map rev x) = x" by (simp add: comp_def)
  then show ?thesis
    using FlipFlow flip_shape[OF x] by (simp add: FlipFlow_forward_def mul_mask_flip z)
qed (use a in simp_all)

lemma flows_loop_inverse_append:
  "flows_loop_inverse (as @ bs) x x_mask g =
     (case flows_loop_inverse as x x_mask g of
        Inl e \<Rightarrow> Inl e
      | Inr y \<Rightarrow> flows_loop_inverse bs y x_mask g)"
  by (induction as arbitrary: x) (simp_all split: sum.splits flow_out.splits)

lemma affine_block_inverse_forward:
  assumes "\<forall>f\<in>set fs. affine_stage f x_mask g B k T"
    and x: "has_shape x B (2 * k) T" and B: "0 < B" and k: "0 < k"
    and mk: "has_shape x_mask B (Suc 0) T" and k01: "mask01 x_mask"
    and z: "mul_mask x x_mask = x"
  shows "\<exists>y. ResidualCouplingBlock_forward fs x x_mask g False = Inr y
           \<and> has_shape y B (2 * k) T
           \<and> ResidualCouplingBlock_forward fs y x_mask g True = Inr x"
  using assms(1) x z
proof (induction fs arbitrary: x)
  case Nil
  then show ?case by (simp add: ResidualCouplingBlock_forward_def)
next
  case (Cons f fs)
  from Cons.prems(1) have a: "affine_stage f x_mask g B k T" by simp
  from affine_stage_inverse_forward[OF a Cons.prems(2) B k mk k01 Cons.prems(3)]
  obtain y1 ld where
    f1: "flow_call f x x_mask g False = Inr (Pair_out y1 ld)" and
    s1: "has_shape y1 B (2 * k) T" and z1: "mul_mask y1 x_mask = y1" and
    i1: "flow_call f y1 x_mask g True = Inr (Tensor_out x)" by blast
  from Cons.prems(1) have "\<forall>f\<in>set fs. affine_stage f x_mask g B k T" by simp
  from Cons.IH[OF this s1 z1] obtain y where
    f2: "ResidualCouplingBlock_forward fs y1 x_mask g False = Inr y" and
    s2: "has_shape y B (2 * k) T" and
    i2: "ResidualCouplingBlock_forward fs y x_mask g True = Inr y1" by blast
  have "ResidualCouplingBlock_forward (f # fs) x x_mask g False = Inr y"
    using f1 f2 by (simp add: ResidualCouplingBlock_forward_def)
  moreover have "ResidualCouplingBlock_forward (f # fs) y x_mask g True = Inr x"
    using i1 i2 by (simp add: ResidualCouplingBlock_forward_def flows_loop_inverse_append)
  ultimately show ?case using s2 by blast
qed

subsection \<open>The transformers layer\<close>

lemma doubling_forward:
  "RCTL_forward doubling_layer [[[1, 0], [2, 0], [3, 0], [4, 0]]] [[[1, 0]]] None False
     = Inr (Pair_out [[[2, 0], [4, 0], [5, 0], [8, 0]]] [0])"
  by (simp add: RCTL_forward_def doubling_layer_def tensor_eval)

lemma doubling_inverse:
  "RCTL_forward doubling_layer [[[2, 0], [4, 0], [5, 0], [8, 0]]] [[[1, 0]]] None True
     = Inr (Tensor_out [[[4, 0], [8, 0], [1, 0], [0, 0]]])"
  by (simp add: RCTL_forward_def doubling_layer_def tensor_eval)

lemma doubling_block_stages:
  "doubling_block = [ResidualCouplingTransformersLayer doubling_layer, FlipFlow]"
  by (simp add: doubling_block_def ResidualCouplingBlock_init_def)

text \<open>
  Claim C2, at a failing input. \<open>ResidualCouplingTransformersLayer.forward\<close> rebinds
  \<open>xa\<close> to \<open>xa + xa_trans\<close> and concatenates that value. On one utterance of four
  channels and two frames, the second one padding, with \<open>xa = (1, 2)\<close> and
  \<open>xb = (3, 4)\<close> on the valid frame and a pre-transformer that returns its input, the
  first half of the output is \<open>(2, 4)\<close> in the forward and in the inverse direction,
  not the first half \<open>(1, 2)\<close> of the input.
\<close>

theorem transformers_layer_changes_first_half:
  "split_half [[[1, 0], [2, 0], [3, 0], [4, 0]]] = Inr ([[[1, 0], [2, 0]]], [[[3, 0], [4, 0]]]) \<and>
   RCTL_forward doubling_layer [[[1, 0], [2, 0], [3, 0], [4, 0]]] [[[1, 0]]] None False
     = Inr (Pair_out [[[2, 0], [4, 0], [5, 0], [8, 0]]] [0]) \<and>
   RCTL_forward doubling_layer [[[1, 0], [2, 0], [3, 0], [4, 0]]] [[[1, 0]]] None True
     = Inr (Tensor_out [[[2, 0], [4, 0], [1, 0], [0, 0]]]) \<and>
   split_half [[[2, 0], [4, 0], [5, 0], [8, 0]]] = Inr ([[[2, 0], [4, 0]]], [[[5, 0], [8, 0]]]) \<and>
   split_half [[[2, 0], [4, 0], [1, 0], [0, 0]]] = Inr ([[[2, 0], [4, 0]]], [[[1, 0], [0, 0]]]) \<and>
   [[[2, 0], [4, 0]]] \<noteq> [[[1::real, 0], [2, 0]]]"
  by (simp add: RCTL_forward_def doubling_layer_def tensor_eval)

text \<open>
  Claim C1, at a failing input. For the transformers layer and for a block built from
  it, the inverse pass applied to the result of the forward pass does not return the
  input: the input above, which is zero on the padded frame, comes back with
  \<open>(4, 8, 1, 0)\<close> on the valid frame in place of \<open>(1, 2, 3, 4)\<close>, because the inverse
  pass derives its statistics from the rebound \<open>xa\<close> once more.
\<close>

theorem transformers_layer_inverse_of_forward:
  "mask01 [[[1, 0]]] \<and>
   mul_mask [[[1, 0], [2, 0], [3, 0], [4, 0]]] [[[1, 0]]] = [[[1, 0], [2, 0], [3, 0], [4, 0]]] \<and>
   RCTL_forward doubling_layer [[[1, 0], [2, 0], [3, 0], [4, 0]]] [[[1, 0]]] None False
     = Inr (Pair_out [[[2, 0], [4, 0], [5, 0], [8, 0]]] [0]) \<and>
   RCTL_forward doubling_layer [[[2, 0], [4, 0], [5, 0], [8, 0]]] [[[1, 0]]] None True
     = Inr (Tensor_out [[[4, 0], [8, 0], [1, 0], [0, 0]]]) \<and>
   ResidualCouplingBlock_forward doubling_block [[[1, 0], [2, 0], [3, 0], [4, 0]]] [[[1, 0]]] None False
     = Inr [[[8, 0], [5, 0], [4, 0], [2, 0]]] \<and>
   ResidualCouplingBlock_forward doubling_block [[[8, 0], [5, 0], [4, 0], [2, 0]]] [[[1, 0]]] None True
     = Inr [[[4, 0], [8, 0], [1, 0], [0, 0]]] \<and>
   [[[4, 0], [8, 0], [1, 0], [0, 0]]] \<noteq> [[[1::real, 0], [2, 0], [3, 0], [4, 0]]]"
  by (simp add: doubling_forward doubling_inverse doubling_block_stages
      ResidualCouplingBlock_forward_def FlipFlow_forward_def mul_mask_def mask_row_def
      mask01_def)

lemma RCTL_forward_unfold:
  "RCTL_forward L x x_mask g inverse' =
     (case split_half x of
        Inl e \<Rightarrow> Inl e
      | Inr (xa, xb) \<Rightarrow>
          (case split_stats (use_only_mean L) (RCTL_stats L (RCTL_refine L xa x_mask) x_mask g) of
             Inl e \<Rightarrow> Inl e
           | Inr (m, logs) \<Rightarrow>
               Inr (affine_update (RCTL_refine L xa x_mask) xb m logs x_mask inverse')))"
  by (simp add: RCTL_forward_def RCTL_stats_def RCTL_refine_def Let_def
      split: sum.splits prod.splits)

lemma transformers_coupling_forward:
  assumes "split_half x = Inr (xa, xb)"
    and "split_stats (use_only_mean L) (RCTL_stats L (RCTL_refine L xa x_mask) x_mask g) = Inr (m, logs)"
    and "mask01 x_mask"
  shows "RCTL_forward L x x_mask g False
           = Inr (Pair_out (cat1 (RCTL_refine L xa x_mask)
                                 (tadd m (mul_mask (tmul xb (texp logs)) x_mask)))
                           (sum12 (mul_mask logs x_mask)))"
proof -
  have "mul_mask logs x_mask = logs"
    using assms(3) assms(2) unfolding RCTL_stats_def Let_def by (rule stats_masked)
  then show ?thesis
    by (simp add: RCTL_forward_unfold assms(1,2) affine_update_def)
qed

text \<open>
  Claim C3, at a failing input. For the transformers layer the transformed half and the
  log-determinant are as the claim says, with \<open>m\<close> and \<open>logs\<close> derived from the
  refined \<open>xa\<close>, but the output is not the concatenation of \<open>xa\<close> and the
  transformed half: on the input with \<open>xa = (1, 2)\<close> and \<open>xb = (3, 4)\<close> the
  transformed half is \<open>(5, 8)\<close> and the output is \<open>(2, 4, 5, 8)\<close>, not
  \<open>(1, 2, 5, 8)\<close>.
\<close>

theorem transformers_layer_output_is_not_cat_xa:
  "split_half [[[1, 0], [2, 0], [3, 0], [4, 0]]] = Inr ([[[1, 0], [2, 0]]], [[[3, 0], [4, 0]]]) \<and>
   split_stats (use_only_mean doubling_layer)
     (RCTL_stats doubling_layer (RCTL_refine doubling_layer [[[1, 0], [2, 0]]] [[[1, 0]]])
        [[[1, 0]]] None)
     = Inr ([[[2, 0], [4, 0]]], [[[0, 0], [0, 0]]]) \<and>
   tadd [[[2, 0], [4, 0]]] (mul_mask (tmul [[[3, 0], [4, 0]]] (texp [[[0, 0], [0, 0]]])) [[[1, 0]]])
     = [[[5, 0], [8, 0]]] \<and>
   cat1 [[[1, 0], [2, 0]]] [[[5, 0], [8, 0]]] = [[[1, 0], [2, 0], [5, 0], [8, 0]]] \<and>
   RCTL_forward doubling_layer [[[1, 0], [2, 0], [3, 0], [4, 0]]] [[[1, 0]]] None False
     = Inr (Pair_out [[[2, 0], [4, 0], [5, 0], [8, 0]]] [0]) \<and>
   [[[2, 0], [4, 0], [5, 0], [8, 0]]] \<noteq> [[[1::real, 0], [2, 0], [5, 0], [8, 0]]]"
  by (simp add: RCTL_forward_def RCTL_stats_def RCTL_refine_def doubling_layer_def tensor_eval)

subsection \<open>The block\<close>

lemma fold_stage_error:
  "fold (\<lambda>s r. case r of Inl e \<Rightarrow> Inl e | Inr y \<Rightarrow> s y) ss (Inl e) = Inl e"
  by (induction ss) simp_all

lemma block_loop_forward_spec:
  "block_loop_forward fs x x_mask g = spec_block_forward fs x_mask g x"
proof (induction fs arbitrary: x)
  case Nil
  then show ?case by (simp add: spec_block_forward_def compose_stages_def)
next
  case (Cons f fs)
  then show ?case
    by (simp add: spec_block_forward_def compose_stages_def stage_forward_def fold_stage_error
        split: sum.splits flow_out.splits)
qed

lemma flows_loop_inverse_spec:
  "flows_loop_inverse fs x x_mask g = compose_stages (map (\<lambda>f. stage_inverse f x_mask g) fs) x"
proof (induction fs arbitrary: x)
  case Nil
  then show ?case by (simp add: compose_stages_def)
next
  case (Cons f fs)
  then show ?case
    by (simp add: compose_stages_def stage_inverse_def fold_stage_error
        split: sum.splits flow_out.splits)
qed

text \<open>
  Claim C6. \<open>ResidualCouplingBlock.forward\<close> has the two modes of the flag
  \<open>inverse\<close> and no other. In forward mode it composes the stages in construction
  order, each yielding its transformed tensor without the log-determinant; in inverse
  mode it composes the reversed sequence of stages, each called with \<open>inverse=True\<close>.
  The result is a tensor, never a pair.
\<close>

theorem block_forward_composes_stages:
  "ResidualCouplingBlock_forward fs x x_mask g inverse' =
     (if inverse' then spec_block_inverse fs x_mask g x else spec_block_forward fs x_mask g x)"
  by (simp add: ResidualCouplingBlock_forward_def block_loop_forward_spec
      flows_loop_inverse_spec spec_block_inverse_def)

section \<open>The likelihood of the duration predictor\<close>

lemma acc_add_ok:
  "acc_ok a B \<Longrightarrow> length ld = B \<Longrightarrow> acc_ok (acc_add a ld) B"
  by (cases a) simp_all

lemma acc_add_at:
  "acc_ok a B \<Longrightarrow> length ld = B \<Longrightarrow> b < B \<Longrightarrow> acc_at (acc_add a ld) b = acc_at a b + ld ! b"
  by (cases a) simp_all

lemma acc_add_Vec: "\<exists>u. acc_add a ld = Vec u"
  by (cases a) simp_all

lemma foldl_acc_add:
  assumes "acc_ok a B" and "\<forall>ld\<in>set lds. length ld = B" and "b < B"
  shows "acc_ok (foldl acc_add a lds) B \<and>
         acc_at (foldl acc_add a lds) b = acc_at a b + sum_list (map (\<lambda>ld. ld ! b) lds)"
  using assms(1,2)
proof (induction lds arbitrary: a)
  case Nil
  then show ?case by simp
next
  case (Cons ld lds)
  have l: "length ld = B" using Cons.prems(2) by simp
  have "acc_ok (acc_add a ld) B" using Cons.prems(1) l by (rule acc_add_ok)
  from Cons.IH[OF this] Cons.prems(2)
  show ?case by (simp add: acc_add_at[OF Cons.prems(1) l assms(3)])
qed

lemma vec_sub_acc_at:
  "acc_ok a B \<Longrightarrow> length v = B \<Longrightarrow>
   length (vec_sub_acc v a) = B \<and> (\<forall>b<B. vec_sub_acc v a ! b = v ! b - acc_at a b)"
  by (cases a) simp_all

lemma flows_loop_forward_chain:
  assumes "\<forall>f\<in>set fs. forward_keeps_shape f x_mask g B T" and "has_shape z B 2 T"
  shows "\<exists>z' lds. run_chain fs z x_mask g = Some (z', lds)
           \<and> flows_loop_forward fs z a x_mask g = Inr (z', foldl acc_add a lds)
           \<and> has_shape z' B 2 T \<and> (\<forall>ld\<in>set lds. length ld = B)"
  using assms
proof (induction fs arbitrary: z a)
  case Nil
  then show ?case by simp
next
  case (Cons f fs)
  from Cons.prems obtain z1 ld where
    c: "flow_call f z x_mask (Some g) False = Inr (Pair_out z1 ld)"
    and s: "has_shape z1 B 2 T" and l: "length ld = B"
    unfolding forward_keeps_shape_def by (metis list.set_intros(1))
  from Cons.prems(1) have "\<forall>f\<in>set fs. forward_keeps_shape f x_mask g B T" by simp
  from Cons.IH[OF this s, of "acc_add a ld"] obtain z' lds where
    "run_chain fs z1 x_mask g = Some (z', lds)"
    "flows_loop_forward fs z1 (acc_add a ld) x_mask g = Inr (z', foldl acc_add (acc_add a ld) lds)"
    "has_shape z' B 2 T" "\<forall>ld\<in>set lds. length ld = B" by blast
  then show ?case using c l by simp
qed

lemma row_valid_sum:
  "list_all (\<lambda>v. v = 0 \<or> v = 1) mr \<Longrightarrow>
   sum_list (map2 (*) (map f row) mr) = sum_list (map2 (\<lambda>v mk. if mk = 1 then f v else 0) row (mr::real list))"
  by (induction row mr rule: list_induct2') auto

lemma sum12_masked:
  assumes "mask01 x_mask" and "b < length z" and "b < length x_mask"
  shows "sum12 (mul_mask (ew1 f z) x_mask) ! b = valid_sum f (z ! b) (mask_row (x_mask ! b))"
proof -
  have "list_all (list_all (\<lambda>v. v = 0 \<or> v = 1)) (x_mask ! b)"
    using assms(1,3) by (simp add: mask01_def list_all_length)
  then have r: "list_all (\<lambda>v. v = 0 \<or> v = 1) (mask_row (x_mask ! b))" by (rule mask_row_01)
  have "sum12 (mul_mask (ew1 f z) x_mask) ! b
        = sum_list (map sum_list (map (\<lambda>row. map2 (*) row (mask_row (x_mask ! b))) (map (map f) (z ! b))))"
    using assms(2,3) by (simp add: sum12_def mul_mask_def ew1_def)
  also have "\<dots> = sum_list (map (\<lambda>row. sum_list (map2 (*) (map f row) (mask_row (x_mask ! b)))) (z ! b))"
    by (simp add: comp_def)
  also have "\<dots> = valid_sum f (z ! b) (mask_row (x_mask ! b))"
    by (simp add: valid_sum_def row_valid_sum[OF r])
  finally show ?thesis .
qed

lemma sum12_length: "length (sum12 a) = length a"
  by (simp add: sum12_def)

lemma map2_same: "map2 f (map g xs) (map h xs) = map (\<lambda>x. f (g x) (h x)) xs"
  by (induction xs) simp_all

lemma ew2_same: "ew2 f (ew1 g a) (ew1 h a) = ew1 (\<lambda>v. f (g v) (h v)) a"
proof -
  have "ew2 f (ew1 g a) (ew1 h a)
        = map2 (map2 (map2 f)) (map (map (map g)) a) (map (map (map h)) a)"
    by (simp only: ew2_def ew1_def)
  also have "\<dots> = map (\<lambda>ch. map2 (map2 f) (map (map g) ch) (map (map h) ch)) a"
    by (rule map2_same)
  also have "\<dots> = map (\<lambda>ch. map (\<lambda>row. map2 f (map g row) (map h row)) ch) a"
    by (simp only: map2_same)
  also have "\<dots> = map (map (map (\<lambda>v. f (g v) (h v)))) a"
    by (simp only: map2_same)
  finally show ?thesis by (simp only: ew1_def)
qed

lemma ew1_ew1: "ew1 f (ew1 g a) = ew1 (\<lambda>v. f (g v)) a"
  by (simp add: ew1_def comp_def)

lemma logsigmoid_pair:
  "tadd (ew1 logsigmoid z_u) (ew1 logsigmoid (tneg z_u)) = ew1 (\<lambda>u. logsigmoid u + logsigmoid (- u)) z_u"
  by (simp add: tadd_def tneg_def ew1_ew1 ew2_same)

lemma has_shape_length: "has_shape x B C T \<Longrightarrow> length x = B"
  by (simp add: has_shape_def)

lemma split_1_1_shape:
  assumes "has_shape z B 2 T" and "0 < B"
  shows "split_1_1 z = Inr (map (take 1) z, map (drop 1) z)"
    and "has_shape (map (take 1) z) B 1 T" and "has_shape (map (drop 1) z) B 1 T"
proof -
  show "split_1_1 z = Inr (map (take 1) z, map (drop 1) z)"
    using assms by (simp add: split_1_1_def size1_shape)
  show "has_shape (map (take 1) z) B 1 T" using assms(1) by (simp add: has_shape_iff)
  show "has_shape (map (drop 1) z) B 1 T" using assms(1) by (simp add: has_shape_iff)
qed

text \<open>
  Claim C5. In likelihood mode, on inputs of the documented shapes with a 0/1 mask and
  flows that keep shapes, \<open>forward\<close> returns a tensor of shape \<open>(B,)\<close> whose entry
  for each utterance is \<open>nll + logq\<close>: \<open>nll\<close> sums
  \<open>0.5 * (log(2 * pi) + z ** 2)\<close> over the valid positions of the final latent and
  subtracts the log-determinants of the log flow and of every stage of the main chain;
  \<open>logq\<close> is the posterior-encoder log-likelihood of the auxiliary latent.
\<close>

theorem likelihood_is_nll_plus_logq:
  assumes B: "0 < B" and mk: "has_shape x_mask B 1 T" and k01: "mask01 x_mask"
    and n: "has_shape noise B 2 T" and w: "has_shape w B 1 T"
    and h: "sdp_features P x x_mask g = Inr h"
    and pf: "\<forall>f\<in>set (post_flows P).
               forward_keeps_shape f x_mask (posterior_condition P h w x_mask) B T"
    and mf: "\<forall>f\<in>set (flows P). forward_keeps_shape f x_mask h B T"
    and lf: "log_flow_keeps_shape (log_flow P) x_mask B T"
  shows "\<exists>z_q lds_q z0 ld0 z lds v.
      run_chain (post_flows P) (mul_mask noise x_mask) x_mask (posterior_condition P h w x_mask)
        = Some (z_q, lds_q)
    \<and> log_flow P (mul_mask (tsub w (mul_mask (ew1 sigmoid (map (take 1) z_q)) x_mask)) x_mask) x_mask
        = (z0, ld0)
    \<and> run_chain (flows P) (cat1 z0 (map (drop 1) z_q)) x_mask h = Some (z, lds)
    \<and> StochasticDurationPredictor_forward P x x_mask (Some w) g False noise_scale noise = Inr (NLL v)
    \<and> length v = B
    \<and> (\<forall>b<B. v ! b = nll_at z ld0 lds x_mask b
                      + logq_at (mul_mask noise x_mask) (map (take 1) z_q) lds_q x_mask b)"
proof -
  let ?fn = "\<lambda>v::real. 0.5 * (ln (2 * pi) + v\<^sup>2)"
  let ?fq = "\<lambda>e::real. - 0.5 * (ln (2 * pi) + e\<^sup>2)"
  let ?fs = "\<lambda>u. logsigmoid u + logsigmoid (- u)"
  let ?hq = "posterior_condition P h w x_mask"
  let ?e_q = "mul_mask noise x_mask"
  have mk': "has_shape x_mask B (Suc 0) T" using mk by simp
  have lm: "length x_mask = B" using mk by (rule has_shape_length)
  have se: "has_shape ?e_q B 2 T" using n mk' by (rule mul_mask_shape)
  from flows_loop_forward_chain[OF pf se, of "Scalar 0"] obtain z_q lds_q where
    rq: "run_chain (post_flows P) ?e_q x_mask ?hq = Some (z_q, lds_q)" and
    lq: "flows_loop_forward (post_flows P) ?e_q (Scalar 0) x_mask ?hq
           = Inr (z_q, foldl acc_add (Scalar 0) lds_q)" and
    sq: "has_shape z_q B 2 T" and nq: "\<forall>ld\<in>set lds_q. length ld = B" by blast
  let ?z_u = "map (take 1) z_q"
  let ?z1 = "map (drop 1) z_q"
  note sp = split_1_1_shape[OF sq B]
  let ?u = "mul_mask (ew1 sigmoid ?z_u) x_mask"
  let ?z0in = "mul_mask (tsub w ?u) x_mask"
  have su: "has_shape ?u B 1 T"
    using mul_mask_shape[OF ew1_shape[OF sp(2)], of x_mask sigmoid] mk by simp
  have sz0in: "has_shape ?z0in B 1 T"
    using mul_mask_shape[OF arith_shape(2)[OF w su], of x_mask] mk by simp
  obtain z0 ld0 where l0: "log_flow P ?z0in x_mask = (z0, ld0)" by (meson surj_pair)
  have sz0: "has_shape z0 B 1 T" and n0: "length ld0 = B"
    using lf sz0in l0 unfolding log_flow_keeps_shape_def by (metis fst_conv, metis snd_conv)
  have sc: "has_shape (cat1 z0 ?z1) B 2 T"
    using cat1_shape[OF sz0 sp(3)] by (simp add: numeral_2_eq_2)
  from flows_loop_forward_chain[OF mf sc, of "acc_add (Scalar 0) ld0"] obtain z lds where
    rm: "run_chain (flows P) (cat1 z0 ?z1) x_mask h = Some (z, lds)" and
    lmn: "flows_loop_forward (flows P) (cat1 z0 ?z1) (acc_add (Scalar 0) ld0) x_mask h
           = Inr (z, foldl acc_add (acc_add (Scalar 0) ld0) lds)" and
    sz: "has_shape z B 2 T" and nm: "\<forall>ld\<in>set lds. length ld = B" by blast
  let ?S = "sum12 (mul_mask (ew1 ?fs ?z_u) x_mask)"
  let ?Aq = "acc_add (foldl acc_add (Scalar 0) lds_q) ?S"
  let ?A = "foldl acc_add (acc_add (Scalar 0) ld0) lds"
  let ?logq = "vec_sub_acc (sum12 (mul_mask (ew1 ?fq ?e_q) x_mask)) ?Aq"
  let ?nll = "vec_sub_acc (sum12 (mul_mask (ew1 ?fn z) x_mask)) ?A"
  let ?v = "map2 (+) ?nll ?logq"
  have run: "StochasticDurationPredictor_forward P x x_mask (Some w) g False noise_scale noise
               = Inr (NLL ?v)"
    using lq lmn l0
    by (simp add: StochasticDurationPredictor_forward_def h sdp_likelihood_def Let_def
        posterior_condition_def sp(1) logsigmoid_pair)
  have lzq: "length z_q = B" using sq by (rule has_shape_length)
  have lS: "length ?S = B"
    by (simp add: sum12_length mul_mask_def ew1_def lzq lm)
  have lno: "length noise = B" using n by (rule has_shape_length)
  have lE: "length (sum12 (mul_mask (ew1 ?fq ?e_q) x_mask)) = B"
    by (simp add: sum12_length mul_mask_def ew1_def lno lm)
  have lz: "length z = B" using sz by (rule has_shape_length)
  have lN: "length (sum12 (mul_mask (ew1 ?fn z) x_mask)) = B"
    by (simp add: sum12_length mul_mask_def ew1_def lz lm)
  have okq: "acc_ok (foldl acc_add (Scalar 0) lds_q) B"
    using foldl_acc_add[of "Scalar 0" B lds_q 0] nq B by simp
  have okAq: "acc_ok ?Aq B" using okq lS by (rule acc_add_ok)
  have ok0: "acc_ok (acc_add (Scalar 0) ld0) B" using n0 by simp
  have okA: "acc_ok ?A B" using foldl_acc_add[OF ok0 nm B] by simp
  note vq = vec_sub_acc_at[OF okAq lE]
  note vn = vec_sub_acc_at[OF okA lN]
  have lv: "length ?v = B" using vq vn by simp
  have val: "\<forall>b<B. ?v ! b = nll_at z ld0 lds x_mask b + logq_at ?e_q ?z_u lds_q x_mask b"
  proof (intro allI impI)
    fix b assume b: "b < B"
    have bz: "b < length z" "b < length ?e_q" "b < length ?z_u" "b < length x_mask"
      using b by (simp_all add: lz lzq lm lno mul_mask_def)
    have a1: "acc_at ?A b = ld0 ! b + sum_list (map (\<lambda>ld. ld ! b) lds)"
      using foldl_acc_add[OF ok0 nm b] n0 b by simp
    have a2: "acc_at ?Aq b = sum_list (map (\<lambda>ld. ld ! b) lds_q) + ?S ! b"
      using foldl_acc_add[of "Scalar 0" B lds_q b] nq b acc_add_at[OF okq lS b] by simp
    have "?v ! b = ?nll ! b + ?logq ! b" using vq vn b by simp
    also have "?nll ! b = sum12 (mul_mask (ew1 ?fn z) x_mask) ! b - acc_at ?A b"
      using vn b by blast
    also have "?logq ! b = sum12 (mul_mask (ew1 ?fq ?e_q) x_mask) ! b - acc_at ?Aq b"
      using vq b by blast
    finally show "?v ! b = nll_at z ld0 lds x_mask b + logq_at ?e_q ?z_u lds_q x_mask b"
      by (simp only: a1 a2 nll_at_def logq_at_def sum12_masked[OF k01 bz(1,4)]
          sum12_masked[OF k01 bz(2,4)] sum12_masked[OF k01 bz(3,4)])
  qed
  show ?thesis using rq l0 rm run lv val by blast
qed

lemma FlipFlow_forward_keeps_shape: "forward_keeps_shape FlipFlow x_mask g B T"
  by (simp add: forward_keeps_shape_def FlipFlow_forward_def flip_shape has_shape_length)

lemma id_fns_forward_keeps_shape:
  "forward_keeps_shape (ElementwiseAffineFlow id_fns) x_mask g B T"
  "forward_keeps_shape (ConvFlow id_fns) x_mask g B T"
  by (simp_all add: forward_keeps_shape_def id_fns_def has_shape_length)

lemma post_flows_sdp4: "post_flows sdp4 = flows sdp4"
  by (simp add: sdp4_def StochasticDurationPredictor_init_def id_modules_def)

lemma log_flow_sdp4: "log_flow_keeps_shape (log_flow sdp4) x_mask B T"
  by (simp add: log_flow_keeps_shape_def sdp4_def StochasticDurationPredictor_init_def
      id_modules_def has_shape_length)

lemma sdp4_likelihood_value:
  "StochasticDurationPredictor_forward sdp4 [[[1]]] [[[1]]] (Some [[[2]]]) None False 1
            [[[0], [0]]] = Inr (NLL [9 / 8 + 2 * ln 2])"
proof -
  have "(ln (2 * pi) * 8 + 18) / 2 - 4 * ln (2 * pi) = (9::real)"
    by (simp add: add_divide_distrib)
  then show ?thesis
    by (simp add: StochasticDurationPredictor_forward_def sdp4_features sdp_likelihood_def
        post_flows_sdp4 flows_sdp4 id_fns_def FlipFlow_forward_def tensor_eval split_1_1_def
        sigmoid_def logsigmoid_def)
       (simp add: sdp4_def StochasticDurationPredictor_init_def id_modules_def tensor_eval
        ln_div power2_eq_square)
qed

theorem likelihood_is_nll_plus_logq_witness:
  "(0::nat) < 1 \<and> has_shape [[[1]]] 1 1 1 \<and> mask01 [[[1]]] \<and> has_shape [[[0], [0]]] 1 2 1 \<and>
   StochasticDurationPredictor_forward sdp4 [[[1]]] [[[1]]] (Some [[[2]]]) None False 1
     [[[0], [0]]] = Inr (NLL [9 / 8 + 2 * ln 2]) \<and>
   (\<exists>v. StochasticDurationPredictor_forward sdp4 [[[1]]] [[[1]]] (Some [[[2]]]) None False 1
            [[[0], [0]]] = Inr (NLL v) \<and> length v = 1)"
proof -
  have a: "has_shape [[[1]]] 1 1 1" "mask01 [[[1]]]" "has_shape [[[0], [0]]] 1 2 1"
          "has_shape [[[2]]] 1 1 1"
    by (simp_all add: has_shape_def mask01_def)
  have pf: "\<forall>f\<in>set (post_flows sdp4).
               forward_keeps_shape f [[[1]]] (posterior_condition sdp4 [[[1]]] [[[2]]] [[[1]]]) 1 1"
    by (simp add: post_flows_sdp4 flows_sdp4 FlipFlow_forward_keeps_shape id_fns_forward_keeps_shape)
  have mf: "\<forall>f\<in>set (flows sdp4). forward_keeps_shape f [[[1]]] [[[1]]] 1 1"
    by (simp add: flows_sdp4 FlipFlow_forward_keeps_shape id_fns_forward_keeps_shape)
  from likelihood_is_nll_plus_logq [OF _ a(1,2,3,4) sdp4_features pf mf log_flow_sdp4, of 1]
  have "\<exists>v. StochasticDurationPredictor_forward sdp4 [[[1]]] [[[1]]] (Some [[[2]]]) None False 1
            [[[0], [0]]] = Inr (NLL v) \<and> length v = 1"
    by auto
  then show ?thesis using a sdp4_likelihood_value by simp
qed

section \<open>A second run of the script\<close>

text \<open>
  A run that returns normally leaves the cuts file in place, so the next run takes the
  skipping branch.
\<close>

lemma cuts_exist_after_success:
  assumes "compute_spectrogram_ljspeech E w = (Inr (), w')"
  shows "files w' ''data/fbank/ljspeech_cuts_all.jsonl.gz'' \<noteq> None"
proof (cases "files w ''data/fbank/ljspeech_cuts_all.jsonl.gz'' = None")
  case False
  then show ?thesis
    using assms unfolding skip_unfold[OF False]
    by (auto simp: files_log_event split: option.splits sum.splits)
next
  case True
  then show ?thesis
    using assms
    by (auto simp: compute_spectrogram_ljspeech_def Let_def path_join_def files_log_event
        log_event_def split: option.splits sum.splits prod.splits)
qed

section \<open>Blocks of affine layers\<close>

text \<open>
  A block built with \<open>use_transformer_flows=False\<close> from layers whose modules keep
  shapes is inverted by its inverse pass; the layer that estimates only the mean is
  such a layer.
\<close>

lemma init_affine_stages:
  assumes "\<And>i. stats_ok (a i) x_mask g B k T"
  shows "\<forall>f\<in>set (ResidualCouplingBlock_init n False a t). affine_stage f x_mask g B k T"
  using assms by (auto simp: ResidualCouplingBlock_init_def)

lemma mean_layer_stats_ok:
  assumes "has_shape x_mask B (Suc 0) T"
  shows "stats_ok mean_layer x_mask g B k T"
  unfolding stats_ok_def
proof (intro allI impI)
  fix xa assume "has_shape xa B k T"
  then have s: "has_shape (mul_mask (mul_mask xa x_mask) x_mask) B k T"
    using assms by (intro mul_mask_shape)
  have "split_stats (use_only_mean mean_layer) (RACL_stats mean_layer xa x_mask g)
          = Inr (mul_mask (mul_mask xa x_mask) x_mask,
                 zeros_like (mul_mask (mul_mask xa x_mask) x_mask))"
    by (simp add: mean_layer_def RACL_stats_def split_stats_def)
  then show "\<exists>m logs. split_stats (use_only_mean mean_layer) (RACL_stats mean_layer xa x_mask g)
                     = Inr (m, logs) \<and> has_shape m B k T \<and> has_shape logs B k T"
    using s arith_shape(6)[OF s] by blast
qed

lemma mean_block_inverse_forward:
  "\<exists>y. ResidualCouplingBlock_forward (ResidualCouplingBlock_init 4 False (\<lambda>_. mean_layer) t)
          [[[1, 0], [2, 0], [3, 0], [4, 0]]] [[[1, 0]]] None False = Inr y
       \<and> ResidualCouplingBlock_forward (ResidualCouplingBlock_init 4 False (\<lambda>_. mean_layer) t)
          y [[[1, 0]]] None True = Inr [[[1, 0], [2, 0], [3, 0], [4, 0]]]"
proof -
  have mk: "has_shape [[[1, 0]]] 1 (Suc 0) 2" and k01: "mask01 [[[1, 0]]]"
    and x: "has_shape [[[1, 0], [2, 0], [3, 0], [4, 0]]] 1 (2 * 2) 2"
    and z: "mul_mask [[[1, 0], [2, 0], [3, 0], [4, 0]]] [[[1, 0]]] = [[[1, 0], [2, 0], [3, 0], [4, 0]]]"
    by (simp_all add: has_shape_def mask01_def mul_mask_def mask_row_def)
  have "\<forall>f\<in>set (ResidualCouplingBlock_init 4 False (\<lambda>_. mean_layer) t).
          affine_stage f [[[1, 0]]] None 1 2 2"
    by (rule init_affine_stages) (rule mean_layer_stats_ok[OF mk])
  from affine_block_inverse_forward[OF this x _ _ mk k01 z] show ?thesis by auto
qed

end
